theory Spec2Isabelle
  imports Main "HOL-Library.Word"
begin

section \<open>Host values, errors and the library environment\<close>

text \<open>
  The module is a set of C functions called by a Lua host. Each function reads its
  arguments from the host stack, may raise a host error (\<open>luaL_argerror\<close> does not
  return), calls into librados and returns the number of values it leaves for the caller.
  The embedding makes each of these explicit: arguments are \<open>lua_value\<close>s, a raised
  error is the outcome \<open>Raise\<close>, the returned values are the outcome \<open>Return\<close>, every
  call into librados or the C allocator is recorded in a list of \<open>libcall\<close>s, and what
  the backend answers is a parameter of the function that asks.

  The definitions follow \<open>src/unnamed/part_000\<close>, the later of the two versions of the
  module in the repository. \<open>src/lua_rados.c\<close> is the earlier one: it has the same
  \<open>lua_rados_connect\<close> and \<open>lua_rados_newbuffer\<close>, a shorter cluster finalizer (modelled
  as \<open>lua_rados_cluster_gc_v0\<close>), and no \<open>is_connected\<close>, \<open>aio_read\<close> or
  \<open>open_completions\<close>.

  Integer widths are those of an LP64 platform: \<open>int\<close> has 32 bits; \<open>size_t\<close>,
  \<open>uint64_t\<close>, \<open>time_t\<close> and the host's \<open>lua_Integer\<close> have 64. A backend status is a
  C \<open>int\<close> that the module only compares with 0 and negates; it is an \<open>int\<close> here.
  A host number is taken to be integral. \<open>LNil\<close> stands for \<open>nil\<close> and for an
  argument that is absent; \<open>LTable\<close> and \<open>LUserdata\<close> stand for the values that are
  neither numbers nor strings, and \<open>LUserdata\<close> in a \<open>Return\<close> is the userdata the
  function has just created.
\<close>

type_synonym handle = nat

datatype lua_value =
    LNil
  | LBoolean bool
  | LNumber int
  | LString string
  | LTable
  | LUserdata

text \<open>
  \<open>Arg_error pos msg\<close> is \<open>luaL_argerror (lstate, pos, msg)\<close> as the module calls
  it on a handle in the wrong state; \<open>Type_error pos t\<close> is the error a \<open>luaL_check*\<close>
  function raises when argument \<open>pos\<close> is not of type \<open>t\<close>.
\<close>

datatype lua_error =
    Arg_error nat string
  | Type_error nat string

datatype outcome =
    Raise lua_error
  | Return "lua_value list"

text \<open>
  What the C library and the host library provide and the source only uses:
  \<open>strerror\<close>, the two errno constants of \<open>errno.h\<close>, and the host's conversions
  between numbers and strings (the \<open>luaL_check*\<close> functions accept a number where a
  string is expected and a numeric string where a number is expected).
\<close>

record extern =
  strerror :: "int \<Rightarrow> string"
  lua_number2str :: "int \<Rightarrow> string"
  lua_str2number :: "string \<Rightarrow> int option"
  ENOMEM :: int
  EINVAL :: int

definition luaL_checkstring :: "extern \<Rightarrow> nat \<Rightarrow> lua_value \<Rightarrow> lua_error + string" where
  "luaL_checkstring E pos v =
     (case v of
        LString s \<Rightarrow> Inr s
      | LNumber n \<Rightarrow> Inr (lua_number2str E n)
      | _ \<Rightarrow> Inl (Type_error pos ''string''))"

definition luaL_optstring :: "extern \<Rightarrow> nat \<Rightarrow> lua_value \<Rightarrow> lua_error + string option" where
  "luaL_optstring E pos v =
     (case v of
        LNil \<Rightarrow> Inr None
      | _ \<Rightarrow> (case luaL_checkstring E pos v of Inl e \<Rightarrow> Inl e | Inr s \<Rightarrow> Inr (Some s)))"

definition luaL_checkinteger :: "extern \<Rightarrow> nat \<Rightarrow> lua_value \<Rightarrow> lua_error + int" where
  "luaL_checkinteger E pos v =
     (case v of
        LNumber n \<Rightarrow> Inr n
      | LString s \<Rightarrow>
          (case lua_str2number E s of
             Some n \<Rightarrow> Inr n
           | None \<Rightarrow> Inl (Type_error pos ''number''))
      | _ \<Rightarrow> Inl (Type_error pos ''number''))"

section \<open>The data model of the module\<close>

datatype cluster_state_t = CLUSTER_CONFIGURING | CLUSTER_CONNECTED | CLUSTER_SHUTDOWN

record lua_rados_t =
  cluster :: "handle option"
  state :: cluster_state_t

datatype ioctx_state_t = IOCTX_OPEN | IOCTX_CLOSED

text \<open>
  The native I/O context belongs to librados. The only part of it the module changes is
  the locator key, through \<open>rados_ioctx_locator_set_key\<close>.
\<close>

record rados_ioctx_t =
  ioctx_handle :: handle
  locator_key :: "string option"

record lua_ioctx_t =
  io :: rados_ioctx_t
  state :: ioctx_state_t

datatype completion_state_t = COMPLETION_STAT | COMPLETION_READ

text \<open>
  In the C struct \<open>mtime\<close> and \<open>buf\<close> share storage (an anonymous union); every function
  of the source touches only the member that \<open>state\<close> selects, so the record keeps
  them apart. A \<open>char *\<close> is the block it points to, \<open>None\<close> for \<open>NULL\<close>. The field
  \<open>size\<close> of the struct is \<open>size_c\<close> here.
\<close>

record lua_completion_t =
  completion :: "handle option"
  state :: completion_state_t
  size_c :: "64 word"
  mtime :: "64 word"
  buf :: "string option"

datatype libcall =
    Rados_create "string option"
  | Rados_conf_read_file "handle option" "string option"
  | Rados_connect "handle option"
  | Rados_shutdown "handle option"
  | Rados_service_register "handle option" string string
  | Rados_ioctx_create "handle option" string
  | Rados_ioctx_destroy rados_ioctx_t
  | Rados_ioctx_locator_set_key "string option"
  | Rados_stat rados_ioctx_t string
  | Rados_read rados_ioctx_t string "64 word" "64 word"
  | Rados_aio_create_completion
  | Rados_aio_stat rados_ioctx_t string "handle option"
  | Rados_aio_read rados_ioctx_t string "handle option" "64 word" "64 word"
  | Rados_aio_is_complete "handle option"
  | Rados_aio_wait_for_complete "handle option"
  | Rados_aio_get_return_value "handle option"
  | Rados_aio_release "handle option"
  | Malloc nat
  | Free_cluster "handle option"
  | Free_buffer
  | Refs_settable

definition rados_ioctx_locator_set_key :: "rados_ioctx_t \<Rightarrow> string option \<Rightarrow> rados_ioctx_t" where
  "rados_ioctx_locator_set_key nio key = nio\<lparr>locator_key := key\<rparr>"

section \<open>Argument checks\<close>

text \<open>
  Lines 70 to 126.
  \<open>lua_rados_checkcluster_1\<close>, \<open>lua_rados_checkcompletion\<close> and the first line of
  \<open>lua_rados_checkioctx\<close> are \<open>luaL_checkudata\<close>: they accept exactly the objects of the
  record type, which is the type of the argument here.
\<close>

definition lua_rados_checkcluster :: "nat \<Rightarrow> lua_rados_t \<Rightarrow> lua_error + lua_rados_t" where
  "lua_rados_checkcluster pos rados =
     (if lua_rados_t.state rados = CLUSTER_SHUTDOWN
      then Inl (Arg_error pos ''cannot reuse shutdown rados handle'')
      else Inr rados)"

definition lua_rados_checkcluster_conn :: "nat \<Rightarrow> lua_rados_t \<Rightarrow> lua_error + lua_rados_t" where
  "lua_rados_checkcluster_conn pos self =
     (case lua_rados_checkcluster pos self of
        Inl e \<Rightarrow> Inl e
      | Inr rados \<Rightarrow>
          if lua_rados_t.state rados \<noteq> CLUSTER_CONNECTED
          then Inl (Arg_error pos ''not connected to cluster'')
          else Inr rados)"

definition lua_rados_checkioctx :: "nat \<Rightarrow> lua_ioctx_t \<Rightarrow> lua_error + lua_ioctx_t" where
  "lua_rados_checkioctx pos ioctx =
     (if lua_ioctx_t.state ioctx \<noteq> IOCTX_OPEN
      then Inl (Arg_error pos ''cannot reuse closed ioctx handle'')
      else Inr ioctx)"

section \<open>The nil-error protocol\<close>

text \<open>\<open>lua_rados_pusherror\<close> and \<open>lua_rados_pushresult\<close>, lines 130 to 151.\<close>

definition lua_rados_pusherror :: "extern \<Rightarrow> int \<Rightarrow> outcome" where
  "lua_rados_pusherror E ret = Return [LNil, LString (strerror E (- ret)), LNumber ret]"

definition lua_rados_pushresult :: "extern \<Rightarrow> bool \<Rightarrow> int \<Rightarrow> outcome" where
  "lua_rados_pushresult E ok ret =
     (if \<not> ok then lua_rados_pusherror E ret else Return [LNumber ret])"

section \<open>Scratch buffers\<close>

text \<open>
  \<open>lua_rados_buffer_gc\<close> and \<open>lua_rados_newbuffer\<close>, lines 155 to 195.
  \<open>lua_rados_newbuffer\<close> takes a C \<open>int\<close>. It returns the block, the \<open>Rados.Buffer\<close>
  userdata it created to own the block (none when it returns before creating one) and
  its calls. Whether \<open>malloc\<close> succeeds is the parameter \<open>malloc_ok\<close>.
\<close>

definition lua_rados_newbuffer ::
  "bool \<Rightarrow> 32 word \<Rightarrow> string option \<times> string option option \<times> libcall list" where
  "lua_rados_newbuffer malloc_ok size0 =
     (if sint size0 < 0 then (None, None, [])
      else
        let size1 = (if size0 = 0 then 1 else size0);
            b = (if malloc_ok then Some (replicate (unat size1) (CHR 0x00)) else None)
        in (b, Some b, [Malloc (unat size1)]))"

definition lua_rados_buffer_gc :: "string option \<Rightarrow> string option \<times> libcall list" where
  "lua_rados_buffer_gc pbuf =
     (if pbuf \<noteq> None then (None, [Free_buffer]) else (pbuf, []))"

section \<open>Cluster operations\<close>


text \<open>
  \<open>rados_create\<close> answers with its status \<open>ret\<close> and with what it leaves in
  \<open>rados->cluster\<close>.
\<close>

definition lua_rados_create ::
  "extern \<Rightarrow> lua_value \<Rightarrow> int \<Rightarrow> handle option \<Rightarrow> outcome \<times> lua_rados_t option \<times> libcall list" where
  "lua_rados_create E a1 ret cl =
     (case luaL_optstring E 1 a1 of
        Inl e \<Rightarrow> (Raise e, None, [])
      | Inr user \<Rightarrow>
          let rados = \<lparr>cluster = cl, state = CLUSTER_CONFIGURING\<rparr>
          in (if ret \<noteq> 0 then lua_rados_pusherror E ret else Return [LUserdata],
              Some rados, [Rados_create user]))"

definition lua_rados_conf_read_file ::
  "extern \<Rightarrow> lua_rados_t \<Rightarrow> lua_value \<Rightarrow> int \<Rightarrow> outcome \<times> libcall list" where
  "lua_rados_conf_read_file E self a2 ret =
     (case lua_rados_checkcluster 1 self of
        Inl e \<Rightarrow> (Raise e, [])
      | Inr rados \<Rightarrow>
          (case luaL_optstring E 2 a2 of
             Inl e \<Rightarrow> (Raise e, [])
           | Inr path \<Rightarrow>
               (lua_rados_pushresult E (ret = 0) ret,
                [Rados_conf_read_file (cluster rados) path])))"

definition lua_rados_connect ::
  "extern \<Rightarrow> lua_rados_t \<Rightarrow> int \<Rightarrow> outcome \<times> lua_rados_t \<times> libcall list" where
  "lua_rados_connect E self ret =
     (case lua_rados_checkcluster 1 self of
        Inl e \<Rightarrow> (Raise e, self, [])
      | Inr rados \<Rightarrow>
          if lua_rados_t.state rados = CLUSTER_CONNECTED
          then (Raise (Arg_error 1 ''already connected to cluster''), self, [])
          else
            (lua_rados_pushresult E (ret = 0) ret,
             (if ret = 0 then rados\<lparr>lua_rados_t.state := CLUSTER_CONNECTED\<rparr> else rados),
             [Rados_connect (cluster rados)]))"

definition lua_rados_is_connected :: "lua_rados_t \<Rightarrow> outcome" where
  "lua_rados_is_connected rados =
     Return [LBoolean (lua_rados_t.state rados = CLUSTER_CONNECTED)]"

definition lua_rados_shutdown :: "lua_rados_t \<Rightarrow> outcome \<times> lua_rados_t \<times> libcall list" where
  "lua_rados_shutdown self =
     (case lua_rados_checkcluster_conn 1 self of
        Inl e \<Rightarrow> (Raise e, self, [])
      | Inr rados \<Rightarrow>
          (if lua_rados_t.state rados \<noteq> CLUSTER_SHUTDOWN
           then (Return [], rados\<lparr>cluster := None, lua_rados_t.state := CLUSTER_SHUTDOWN\<rparr>,
                 [Rados_shutdown (cluster rados)])
           else (Return [], rados\<lparr>lua_rados_t.state := CLUSTER_SHUTDOWN\<rparr>, [])))"

text \<open>
  \<open>rados_ioctx_create\<close> answers with its status \<open>ret\<close> and with what it leaves in
  \<open>ioctx->io\<close>; \<open>reg\<close> is what the host registry holds under the module's key. The
  second component is the I/O context userdata, when one was created.
\<close>

definition lua_rados_open_ioctx ::
  "extern \<Rightarrow> lua_rados_t \<Rightarrow> lua_value \<Rightarrow> int \<Rightarrow> rados_ioctx_t \<Rightarrow> lua_value
     \<Rightarrow> outcome \<times> lua_ioctx_t option \<times> libcall list" where
  "lua_rados_open_ioctx E self a2 ret nio reg =
     (case lua_rados_checkcluster_conn 1 self of
        Inl e \<Rightarrow> (Raise e, None, [])
      | Inr rados \<Rightarrow>
          (case luaL_checkstring E 2 a2 of
             Inl e \<Rightarrow> (Raise e, None, [])
           | Inr pool_name \<Rightarrow>
               let ioctx = \<lparr>io = nio, state = IOCTX_OPEN\<rparr>;
                   calls = [Rados_ioctx_create (cluster rados) pool_name]
               in if ret \<noteq> 0 then (lua_rados_pusherror E ret, Some ioctx, calls)
                  else if reg = LNil \<or> reg \<noteq> LTable
                  then (lua_rados_pusherror E 1, Some ioctx, calls)
                  else (Return [LUserdata], Some ioctx, calls @ [Refs_settable])))"

definition lua_rados_service_register ::
  "extern \<Rightarrow> lua_rados_t \<Rightarrow> lua_value \<Rightarrow> lua_value \<Rightarrow> int \<Rightarrow> outcome \<times> libcall list" where
  "lua_rados_service_register E self a2 a3 ret =
     (case lua_rados_checkcluster_conn 1 self of
        Inl e \<Rightarrow> (Raise e, [])
      | Inr rados \<Rightarrow>
          (case luaL_checkstring E 2 a2 of
             Inl e \<Rightarrow> (Raise e, [])
           | Inr service \<Rightarrow>
               (case luaL_checkstring E 3 a3 of
                  Inl e \<Rightarrow> (Raise e, [])
                | Inr daemon \<Rightarrow>
                    (if ret \<noteq> 0 then lua_rados_pusherror E ret else Return [],
                     [Rados_service_register (cluster rados) service daemon]))))"

definition lua_rados_cluster_gc :: "lua_rados_t \<Rightarrow> lua_rados_t \<times> libcall list" where
  "lua_rados_cluster_gc rados =
     (if lua_rados_t.state rados = CLUSTER_CONNECTED
      then (rados\<lparr>lua_rados_t.state := CLUSTER_SHUTDOWN\<rparr>, [Rados_shutdown (cluster rados)])
      else if cluster rados \<noteq> None
      then (rados\<lparr>cluster := None, lua_rados_t.state := CLUSTER_SHUTDOWN\<rparr>,
            [Free_cluster (cluster rados)])
      else (rados\<lparr>lua_rados_t.state := CLUSTER_SHUTDOWN\<rparr>, []))"

text \<open>The same finalizer as \<open>src/lua_rados.c\<close> has it, without the allocator branch.\<close>

definition lua_rados_cluster_gc_v0 :: "lua_rados_t \<Rightarrow> lua_rados_t \<times> libcall list" where
  "lua_rados_cluster_gc_v0 rados =
     (if lua_rados_t.state rados = CLUSTER_CONNECTED
      then (rados\<lparr>lua_rados_t.state := CLUSTER_SHUTDOWN\<rparr>, [Rados_shutdown (cluster rados)])
      else (rados\<lparr>lua_rados_t.state := CLUSTER_SHUTDOWN\<rparr>, []))"

section \<open>I/O context operations\<close>

text \<open>Lines 460 to 644.\<close>

definition lua_rados_ioctx_close :: "lua_ioctx_t \<Rightarrow> outcome \<times> lua_ioctx_t \<times> libcall list" where
  "lua_rados_ioctx_close self =
     (case lua_rados_checkioctx 1 self of
        Inl e \<Rightarrow> (Raise e, self, [])
      | Inr ioctx \<Rightarrow>
          (if lua_ioctx_t.state ioctx = IOCTX_OPEN
           then (Return [], ioctx\<lparr>lua_ioctx_t.state := IOCTX_CLOSED\<rparr>,
                 [Rados_ioctx_destroy (io ioctx)])
           else (Return [], ioctx\<lparr>lua_ioctx_t.state := IOCTX_CLOSED\<rparr>, [])))"

text \<open>
  The backend's answer to a synchronous or asynchronous request may depend on the native
  context it is given, locator key included, so it is a function of that context:
  \<open>rados_stat nio oid\<close> is the status, the size and the modification time;
  \<open>rados_read nio oid b len off\<close> is the status and the block \<open>b\<close> as the backend
  leaves it.
\<close>

definition lua_rados_ioctx_stat ::
  "extern \<Rightarrow> lua_ioctx_t \<Rightarrow> lua_value \<Rightarrow> lua_value
     \<Rightarrow> (rados_ioctx_t \<Rightarrow> string \<Rightarrow> int \<times> 64 word \<times> 64 word)
     \<Rightarrow> outcome \<times> lua_ioctx_t \<times> libcall list" where
  "lua_rados_ioctx_stat E self a2 a3 rados_stat =
     (case lua_rados_checkioctx 1 self of
        Inl e \<Rightarrow> (Raise e, self, [])
      | Inr ioctx \<Rightarrow>
     (case luaL_optstring E 2 a2 of
        Inl e \<Rightarrow> (Raise e, self, [])
      | Inr loc \<Rightarrow>
     (case luaL_checkstring E 3 a3 of
        Inl e \<Rightarrow> (Raise e, self, [])
      | Inr oid \<Rightarrow>
          let io1 = rados_ioctx_locator_set_key (io ioctx) loc;
              ret = fst (rados_stat io1 oid);
              size1 = fst (snd (rados_stat io1 oid));
              mtime1 = snd (snd (rados_stat io1 oid));
              io2 = rados_ioctx_locator_set_key io1 None
          in (if ret \<noteq> 0 then lua_rados_pusherror E ret
              else Return [LNumber (sint size1), LNumber (sint mtime1)],
              ioctx\<lparr>io := io2\<rparr>,
              [Rados_ioctx_locator_set_key loc, Rados_stat io1 oid,
               Rados_ioctx_locator_set_key None]))))"

text \<open>
  The third component is the \<open>Rados.Buffer\<close> userdata the call created, if any, with
  the block it owns when the call returns.
\<close>

definition lua_rados_ioctx_read ::
  "extern \<Rightarrow> lua_ioctx_t \<Rightarrow> lua_value \<Rightarrow> lua_value \<Rightarrow> lua_value \<Rightarrow> lua_value \<Rightarrow> bool
     \<Rightarrow> (rados_ioctx_t \<Rightarrow> string \<Rightarrow> string \<Rightarrow> 64 word \<Rightarrow> 64 word \<Rightarrow> int \<times> string)
     \<Rightarrow> outcome \<times> lua_ioctx_t \<times> string option option \<times> libcall list" where
  "lua_rados_ioctx_read E self a2 a3 a4 a5 malloc_ok rados_read =
     (case lua_rados_checkioctx 1 self of
        Inl e \<Rightarrow> (Raise e, self, None, [])
      | Inr ioctx \<Rightarrow>
     (case luaL_optstring E 2 a2 of
        Inl e \<Rightarrow> (Raise e, self, None, [])
      | Inr loc \<Rightarrow>
     (case luaL_checkstring E 3 a3 of
        Inl e \<Rightarrow> (Raise e, self, None, [])
      | Inr oid \<Rightarrow>
     (case luaL_checkinteger E 4 a4 of
        Inl e \<Rightarrow> (Raise e, self, None, [])
      | Inr len \<Rightarrow>
     (case luaL_checkinteger E 5 a5 of
        Inl e \<Rightarrow> (Raise e, self, None, [])
      | Inr offset \<Rightarrow>
          let size1 = (word_of_int len :: 64 word);
              off = (word_of_int offset :: 64 word);
              nb = lua_rados_newbuffer malloc_ok (ucast size1)
          in (case fst nb of
                None \<Rightarrow> (lua_rados_pusherror E (- ENOMEM E), ioctx, fst (snd nb), snd (snd nb))
              | Some b \<Rightarrow>
                  let io1 = rados_ioctx_locator_set_key (io ioctx) loc;
                      ret = fst (rados_read io1 oid b size1 off);
                      b1 = snd (rados_read io1 oid b size1 off);
                      io2 = rados_ioctx_locator_set_key io1 None
                  in (if ret < 0 then lua_rados_pusherror E ret
                      else Return [LString (take (nat ret) b1)],
                      ioctx\<lparr>io := io2\<rparr>,
                      Some (Some b1),
                      snd (snd nb) @
                      [Rados_ioctx_locator_set_key loc, Rados_read io1 oid size1 off,
                       Rados_ioctx_locator_set_key None])))))))"

text \<open>
  The asynchronous calls also take the process-wide counter \<open>active_completions\<close> and
  return it. \<open>raw\<close> is the fresh userdata as the host hands it out, before any field is
  written. \<open>rados_aio_create_completion\<close> answers with its status \<open>cret\<close> and, when that
  is 0, stores the token \<open>tok\<close>. \<open>rados_aio_stat nio oid\<close> and
  \<open>rados_aio_read nio oid len off\<close> are the status of the submission. The fourth
  component is the Completion userdata the call created, if any.
\<close>

definition lua_rados_ioctx_aio_stat ::
  "extern \<Rightarrow> 32 word \<Rightarrow> lua_ioctx_t \<Rightarrow> lua_value \<Rightarrow> lua_value \<Rightarrow> lua_completion_t
     \<Rightarrow> int \<Rightarrow> handle \<Rightarrow> (rados_ioctx_t \<Rightarrow> string \<Rightarrow> int)
     \<Rightarrow> outcome \<times> 32 word \<times> lua_ioctx_t \<times> lua_completion_t option \<times> libcall list" where
  "lua_rados_ioctx_aio_stat E active_completions self a2 a3 raw cret tok rados_aio_stat =
     (case lua_rados_checkioctx 1 self of
        Inl e \<Rightarrow> (Raise e, active_completions, self, None, [])
      | Inr ioctx \<Rightarrow>
     (case luaL_optstring E 2 a2 of
        Inl e \<Rightarrow> (Raise e, active_completions, self, None, [])
      | Inr loc \<Rightarrow>
     (case luaL_checkstring E 3 a3 of
        Inl e \<Rightarrow> (Raise e, active_completions, self, None, [])
      | Inr oid \<Rightarrow>
          let comp0 = raw\<lparr>completion := None, lua_completion_t.state := COMPLETION_STAT\<rparr>
          in if cret \<noteq> 0
             then (lua_rados_pusherror E cret, active_completions, ioctx, Some comp0,
                   [Rados_aio_create_completion])
             else
               let comp1 = comp0\<lparr>completion := Some tok\<rparr>;
                   io1 = rados_ioctx_locator_set_key (io ioctx) loc;
                   ret = rados_aio_stat io1 oid;
                   io2 = rados_ioctx_locator_set_key io1 None
               in (if ret \<noteq> 0 then lua_rados_pusherror E ret else Return [LUserdata],
                   active_completions + 1,
                   ioctx\<lparr>io := io2\<rparr>,
                   Some comp1,
                   [Rados_aio_create_completion, Rados_ioctx_locator_set_key loc,
                    Rados_aio_stat io1 oid (completion comp1),
                    Rados_ioctx_locator_set_key None]))))"

text \<open>\<open>mem\<close> is what \<open>malloc (comp->size)\<close> returns.\<close>

definition lua_rados_ioctx_aio_read ::
  "extern \<Rightarrow> 32 word \<Rightarrow> lua_ioctx_t \<Rightarrow> lua_value \<Rightarrow> lua_value \<Rightarrow> lua_value \<Rightarrow> lua_value
     \<Rightarrow> lua_completion_t \<Rightarrow> string option \<Rightarrow> int \<Rightarrow> handle
     \<Rightarrow> (rados_ioctx_t \<Rightarrow> string \<Rightarrow> 64 word \<Rightarrow> 64 word \<Rightarrow> int)
     \<Rightarrow> outcome \<times> 32 word \<times> lua_ioctx_t \<times> lua_completion_t option \<times> libcall list" where
  "lua_rados_ioctx_aio_read E active_completions self a2 a3 a4 a5 raw mem cret tok rados_aio_read =
     (case lua_rados_checkioctx 1 self of
        Inl e \<Rightarrow> (Raise e, active_completions, self, None, [])
      | Inr ioctx \<Rightarrow>
     (case luaL_optstring E 2 a2 of
        Inl e \<Rightarrow> (Raise e, active_completions, self, None, [])
      | Inr loc \<Rightarrow>
     (case luaL_checkstring E 3 a3 of
        Inl e \<Rightarrow> (Raise e, active_completions, self, None, [])
      | Inr oid \<Rightarrow>
     (case luaL_checkinteger E 4 a4 of
        Inl e \<Rightarrow> (Raise e, active_completions, self, None, [])
      | Inr len \<Rightarrow>
     (case luaL_checkinteger E 5 a5 of
        Inl e \<Rightarrow> (Raise e, active_completions, self, None, [])
      | Inr offset \<Rightarrow>
          let size1 = (word_of_int len :: 64 word);
              off = (word_of_int offset :: 64 word);
              comp0 = raw\<lparr>completion := None, lua_completion_t.state := COMPLETION_READ,
                         size_c := size1, buf := mem\<rparr>;
              c0 = [Malloc (unat (size_c comp0))]
          in if buf comp0 = None
             then (lua_rados_pusherror E (- ENOMEM E), active_completions, ioctx, Some comp0, c0)
             else if cret \<noteq> 0
             then (lua_rados_pusherror E cret, active_completions, ioctx, Some comp0,
                   c0 @ [Rados_aio_create_completion])
             else
               let comp1 = comp0\<lparr>completion := Some tok\<rparr>;
                   io1 = rados_ioctx_locator_set_key (io ioctx) loc;
                   ret = rados_aio_read io1 oid (size_c comp1) off;
                   io2 = rados_ioctx_locator_set_key io1 None
               in (if ret \<noteq> 0 then lua_rados_pusherror E ret else Return [LUserdata],
                   active_completions + 1,
                   ioctx\<lparr>io := io2\<rparr>,
                   Some comp1,
                   c0 @
                   [Rados_aio_create_completion, Rados_ioctx_locator_set_key loc,
                    Rados_aio_read io1 oid (completion comp1) (size_c comp1) off,
                    Rados_ioctx_locator_set_key None]))))))"

section \<open>Completion operations\<close>

text \<open>Lines 652 to 742.\<close>

definition lua_rados_completion_complete :: "lua_completion_t \<Rightarrow> int \<Rightarrow> outcome \<times> libcall list" where
  "lua_rados_completion_complete comp0 ret =
     (Return [LNumber ret], [Rados_aio_is_complete (completion comp0)])"

definition lua_rados_completion_wait_for_complete :: "lua_completion_t \<Rightarrow> outcome \<times> libcall list" where
  "lua_rados_completion_wait_for_complete comp0 =
     (Return [], [Rados_aio_wait_for_complete (completion comp0)])"

text \<open>
  \<open>ret\<close> is what \<open>rados_aio_get_return_value\<close> answers. \<open>lua_pushlstring\<close> copies
  \<open>comp->size\<close> bytes starting at \<open>comp->buf\<close>.
\<close>

definition lua_rados_completion_get_return_value ::
  "extern \<Rightarrow> lua_completion_t \<Rightarrow> int \<Rightarrow> outcome" where
  "lua_rados_completion_get_return_value E comp0 ret =
     (if ret < 0 then lua_rados_pusherror E ret
      else if lua_completion_t.state comp0 = COMPLETION_STAT
      then Return [LNumber (sint (size_c comp0)), LNumber (sint (mtime comp0))]
      else if lua_completion_t.state comp0 = COMPLETION_READ
      then Return [LString (take (unat (size_c comp0))
                     (case buf comp0 of None \<Rightarrow> [] | Some b \<Rightarrow> b))]
      else lua_rados_pusherror E (- EINVAL E))"

definition lua_rados_completion_gc ::
  "32 word \<Rightarrow> lua_completion_t \<Rightarrow> 32 word \<times> lua_completion_t \<times> libcall list" where
  "lua_rados_completion_gc active_completions comp0 =
     (let released = (completion comp0 \<noteq> None);
          n1 = (if released then active_completions - 1 else active_completions);
          comp1 = (if released then comp0\<lparr>completion := None\<rparr> else comp0);
          k1 = (if released then [Rados_aio_release (completion comp0)] else []);
          freed = (lua_completion_t.state comp1 = COMPLETION_READ \<and> buf comp1 \<noteq> None);
          comp2 = (if freed then comp1\<lparr>buf := None\<rparr> else comp1);
          k2 = (if freed then [Free_buffer] else [])
      in (n1, comp2, k1 @ k2))"

section \<open>Sequences of calls on one cluster handle\<close>

text \<open>
  The host calls the cluster methods one after another on the same userdata. A
  \<open>cluster_op\<close> is one such call with its arguments and the backend's answers;
  \<open>Op_cluster_gc\<close> is the \<open>__gc\<close> metamethod.
\<close>

datatype cluster_op =
    Op_conf_read_file lua_value int
  | Op_connect int
  | Op_is_connected
  | Op_shutdown
  | Op_open_ioctx lua_value int rados_ioctx_t lua_value
  | Op_service_register lua_value lua_value int
  | Op_cluster_gc

fun cluster_step :: "extern \<Rightarrow> lua_rados_t \<Rightarrow> cluster_op \<Rightarrow> outcome \<times> lua_rados_t \<times> libcall list" where
  "cluster_step E r (Op_conf_read_file a2 ret) =
     (fst (lua_rados_conf_read_file E r a2 ret), r, snd (lua_rados_conf_read_file E r a2 ret))"
| "cluster_step E r (Op_connect ret) = lua_rados_connect E r ret"
| "cluster_step E r Op_is_connected = (lua_rados_is_connected r, r, [])"
| "cluster_step E r Op_shutdown = lua_rados_shutdown r"
| "cluster_step E r (Op_open_ioctx a2 ret nio reg) =
     (fst (lua_rados_open_ioctx E r a2 ret nio reg), r,
      snd (snd (lua_rados_open_ioctx E r a2 ret nio reg)))"
| "cluster_step E r (Op_service_register a2 a3 ret) =
     (fst (lua_rados_service_register E r a2 a3 ret), r,
      snd (lua_rados_service_register E r a2 a3 ret))"
| "cluster_step E r Op_cluster_gc =
     (Return [], fst (lua_rados_cluster_gc r), snd (lua_rados_cluster_gc r))"

fun cluster_final :: "extern \<Rightarrow> lua_rados_t \<Rightarrow> cluster_op list \<Rightarrow> lua_rados_t" where
  "cluster_final E r [] = r"
| "cluster_final E r (x # xs) = cluster_final E (fst (snd (cluster_step E r x))) xs"

fun cluster_outcomes :: "extern \<Rightarrow> lua_rados_t \<Rightarrow> cluster_op list \<Rightarrow> (cluster_op \<times> outcome) list" where
  "cluster_outcomes E r [] = []"
| "cluster_outcomes E r (x # xs) =
     (x, fst (cluster_step E r x)) # cluster_outcomes E (fst (snd (cluster_step E r x))) xs"

fun cluster_calls :: "extern \<Rightarrow> lua_rados_t \<Rightarrow> cluster_op list \<Rightarrow> libcall list" where
  "cluster_calls E r [] = []"
| "cluster_calls E r (x # xs) =
     snd (snd (cluster_step E r x)) @ cluster_calls E (fst (snd (cluster_step E r x))) xs"

definition connect_succeeded :: "cluster_op \<times> outcome \<Rightarrow> bool" where
  "connect_succeeded p =
     (case fst p of Op_connect ret \<Rightarrow> snd p = Return [LNumber 0] | _ \<Rightarrow> False)"

fun releases_cluster :: "libcall \<Rightarrow> bool" where
  "releases_cluster (Rados_shutdown h) = True"
| "releases_cluster (Free_cluster h) = True"
| "releases_cluster _ = False"

fun is_rados_shutdown :: "libcall \<Rightarrow> bool" where
  "is_rados_shutdown (Rados_shutdown h) = True"
| "is_rados_shutdown _ = False"

fun is_cluster_gc :: "cluster_op \<Rightarrow> bool" where
  "is_cluster_gc Op_cluster_gc = True"
| "is_cluster_gc _ = False"

section \<open>The counter of open completions\<close>

text \<open>
  \<open>active_completions\<close> is a \<open>static int\<close> of the module; \<open>completions\<close> are the
  Completion userdata created so far, in the order of their creation. A
  \<open>completion_op\<close> is one call of the host that creates or uses a Completion.
\<close>

record module_state =
  active_completions :: "32 word"
  completions :: "lua_completion_t list"







section \<open>Sequences of synchronous calls on one I/O context\<close>

text \<open>
  An \<open>ioctx_op\<close> is one \<open>stat\<close> or \<open>read\<close> with its arguments, the allocator's answer
  and the backend as it is at that moment. \<open>with_key ioctx k\<close> is the same context
  with the native locator key \<open>k\<close>.
\<close>

datatype ioctx_op =
    Op_stat lua_value lua_value "rados_ioctx_t \<Rightarrow> string \<Rightarrow> int \<times> 64 word \<times> 64 word"
  | Op_read lua_value lua_value lua_value lua_value bool
      "rados_ioctx_t \<Rightarrow> string \<Rightarrow> string \<Rightarrow> 64 word \<Rightarrow> 64 word \<Rightarrow> int \<times> string"

fun ioctx_step :: "extern \<Rightarrow> lua_ioctx_t \<Rightarrow> ioctx_op \<Rightarrow> outcome \<times> lua_ioctx_t \<times> libcall list" where
  "ioctx_step E ioctx (Op_stat a2 a3 rados_stat) = lua_rados_ioctx_stat E ioctx a2 a3 rados_stat"
| "ioctx_step E ioctx (Op_read a2 a3 a4 a5 malloc_ok rados_read) =
     (fst (lua_rados_ioctx_read E ioctx a2 a3 a4 a5 malloc_ok rados_read),
      fst (snd (lua_rados_ioctx_read E ioctx a2 a3 a4 a5 malloc_ok rados_read)),
      snd (snd (snd (lua_rados_ioctx_read E ioctx a2 a3 a4 a5 malloc_ok rados_read))))"

definition with_key :: "lua_ioctx_t \<Rightarrow> string option \<Rightarrow> lua_ioctx_t" where
  "with_key ioctx k = ioctx\<lparr>io := rados_ioctx_locator_set_key (io ioctx) k\<rparr>"

text \<open>
  \<open>lua_isstring\<close> of the host API: true of strings and of numbers, which convert to
  strings.
\<close>

fun lua_isstring :: "lua_value \<Rightarrow> bool" where
  "lua_isstring (LString s) = True"
| "lua_isstring (LNumber n) = True"
| "lua_isstring _ = False"


section \<open>A concrete environment\<close>

text \<open>
  The theorems below hold for every environment and every backend. To evaluate the
  model on concrete calls, this section fixes one environment: the errno values and
  messages of Linux, decimal numerals for the host's conversions, and a few backends.
\<close>

definition posix_strerror :: "int \<Rightarrow> string" where
  "posix_strerror n =
     (if n = 2 then ''No such file or directory''
      else if n = 12 then ''Cannot allocate memory''
      else if n = 22 then ''Invalid argument''
      else ''Unknown error'')"

definition digit_char :: "nat \<Rightarrow> char" where
  "digit_char d = ''0123456789'' ! d"

fun dec_digits :: "nat \<Rightarrow> string" where
  "dec_digits n =
     (if n < 10 then [digit_char n]
      else dec_digits (n div 10) @ [digit_char (n mod 10)])"

definition dec_number2str :: "int \<Rightarrow> string" where
  "dec_number2str i = (if i < 0 then CHR ''-'' # dec_digits (nat (- i)) else dec_digits (nat i))"

definition digit_value :: "char \<Rightarrow> nat option" where
  "digit_value c = map_of (zip ''0123456789'' [0, 1, 2, 3, 4, 5, 6, 7, 8, 9]) c"

fun dec_value :: "nat \<Rightarrow> string \<Rightarrow> nat option" where
  "dec_value acc [] = Some acc"
| "dec_value acc (c # cs) =
     (case digit_value c of
        None \<Rightarrow> None
      | Some d \<Rightarrow> dec_value (10 * acc + d) cs)"

definition dec_str2number :: "string \<Rightarrow> int option" where
  "dec_str2number s = (if s = [] then None else map_option int (dec_value 0 s))"

definition linux_host :: extern where
  "linux_host =
     \<lparr>strerror = posix_strerror, lua_number2str = dec_number2str,
      lua_str2number = dec_str2number, ENOMEM = 12, EINVAL = 22\<rparr>"

text \<open>
  Backends: one that knows the object \<open>obj\<close> only under the locator key \<open>k1\<close>, one
  whose object holds the two bytes \<open>ab\<close>, and submissions that succeed or report
  \<open>ENOENT\<close>.
\<close>

definition keyed_stat :: "rados_ioctx_t \<Rightarrow> string \<Rightarrow> int \<times> 64 word \<times> 64 word" where
  "keyed_stat nio oid =
     (if locator_key nio = Some ''k1'' \<and> oid = ''obj'' then (0, 10, 1700000000)
      else (- 2, 0, 0))"

definition keyed_read :: "rados_ioctx_t \<Rightarrow> string \<Rightarrow> string \<Rightarrow> 64 word \<Rightarrow> 64 word \<Rightarrow> int \<times> string" where
  "keyed_read nio oid b len off =
     (if locator_key nio = Some ''k1'' \<and> oid = ''obj''
      then (int (min (unat len) 3), take (unat len) ''abc'' @ drop (min (unat len) 3) b)
      else (- 2, b))"

definition open_ioctx_1 :: lua_ioctx_t where
  "open_ioctx_1 = \<lparr>io = \<lparr>ioctx_handle = 1, locator_key = None\<rparr>, state = IOCTX_OPEN\<rparr>"

definition two_byte_read ::
  "rados_ioctx_t \<Rightarrow> string \<Rightarrow> string \<Rightarrow> 64 word \<Rightarrow> 64 word \<Rightarrow> int \<times> string" where
  "two_byte_read nio oid b len off =
     (int (min (unat len) 2), take (unat len) ''ab'' @ drop (min (unat len) 2) b)"

definition connected_cluster_7 :: lua_rados_t where
  "connected_cluster_7 = \<lparr>cluster = Some 7, state = CLUSTER_CONNECTED\<rparr>"

definition raw_completion :: lua_completion_t where
  "raw_completion =
     \<lparr>completion = Some 99, state = COMPLETION_READ, size_c = 77, mtime = 55, buf = None\<rparr>"

definition enoent_aio_stat :: "rados_ioctx_t \<Rightarrow> string \<Rightarrow> int" where
  "enoent_aio_stat nio oid = - 2"

definition ok_aio_stat :: "rados_ioctx_t \<Rightarrow> string \<Rightarrow> int" where
  "ok_aio_stat nio oid = 0"

definition enoent_aio_read :: "rados_ioctx_t \<Rightarrow> string \<Rightarrow> 64 word \<Rightarrow> 64 word \<Rightarrow> int" where
  "enoent_aio_read nio oid len off = - 2"

definition ok_aio_read :: "rados_ioctx_t \<Rightarrow> string \<Rightarrow> 64 word \<Rightarrow> 64 word \<Rightarrow> int" where
  "ok_aio_read nio oid len off = 0"

text \<open>
  A Completion made by \<open>aio_read\<close> for 4 bytes, after the backend has stored the two
  bytes of the object in its block.
\<close>

definition short_read_completion :: lua_completion_t where
  "short_read_completion =
     \<lparr>completion = Some 5, state = COMPLETION_READ, size_c = 4, mtime = 55, buf = Some ''abzz''\<rparr>"

section \<open>The cluster handle\<close>

lemmas cluster_defs =
  lua_rados_checkcluster_def lua_rados_checkcluster_conn_def lua_rados_connect_def
  lua_rados_conf_read_file_def lua_rados_shutdown_def lua_rados_open_ioctx_def
  lua_rados_service_register_def lua_rados_is_connected_def lua_rados_cluster_gc_def
  lua_rados_pushresult_def lua_rados_pusherror_def Let_def

lemmas ioctx_defs =
  lua_rados_checkioctx_def lua_rados_ioctx_stat_def lua_rados_ioctx_read_def
  rados_ioctx_locator_set_key_def Let_def

lemmas aio_defs =
  lua_rados_checkioctx_def lua_rados_ioctx_aio_stat_def lua_rados_ioctx_aio_read_def
  rados_ioctx_locator_set_key_def lua_rados_pusherror_def Let_def

lemmas arg_defs = luaL_checkstring_def luaL_optstring_def luaL_checkinteger_def

lemmas fixture_defs =
  linux_host_def posix_strerror_def dec_number2str_def dec_str2number_def digit_char_def
  digit_value_def open_ioctx_1_def raw_completion_def

subsection \<open>Connecting\<close>

lemma step_not_configuring:
  "lua_rados_t.state r \<noteq> CLUSTER_CONFIGURING \<Longrightarrow>
     lua_rados_t.state (fst (snd (cluster_step E r x))) \<noteq> CLUSTER_CONFIGURING
     \<and> \<not> connect_succeeded (x, fst (cluster_step E r x))"
  by (cases x; cases "lua_rados_t.state r")
     (simp_all add: cluster_defs connect_succeeded_def split: sum.splits)

lemma no_success_after_configuring:
  "lua_rados_t.state r \<noteq> CLUSTER_CONFIGURING \<Longrightarrow>
     filter connect_succeeded (cluster_outcomes E r ops) = []"
proof (induction ops arbitrary: r)
  case Nil
  then show ?case by simp
next
  case (Cons x xs)
  from step_not_configuring [OF Cons.prems, of E x]
  show ?case using Cons.IH by simp
qed

lemma success_leaves_configuring:
  "connect_succeeded (x, fst (cluster_step E r x)) \<Longrightarrow>
     lua_rados_t.state (fst (snd (cluster_step E r x))) = CLUSTER_CONNECTED"
  by (cases x; cases "lua_rados_t.state r")
     (simp_all add: cluster_defs connect_succeeded_def split: sum.splits if_splits)

lemma connect_successes_le_1:
  "length (filter connect_succeeded (cluster_outcomes E r ops)) \<le> 1"
proof (induction ops arbitrary: r)
  case Nil
  then show ?case by simp
next
  case (Cons x xs)
  show ?case
  proof (cases "connect_succeeded (x, fst (cluster_step E r x))")
    case True
    then have "lua_rados_t.state (fst (snd (cluster_step E r x))) \<noteq> CLUSTER_CONFIGURING"
      using success_leaves_configuring [of x E r] by simp
    then have "filter connect_succeeded (cluster_outcomes E (fst (snd (cluster_step E r x))) xs) = []"
      by (rule no_success_after_configuring)
    with True show ?thesis by simp
  next
    case False
    then show ?thesis using Cons.IH by simp
  qed
qed

text \<open>
  Claim C3. \<open>connect\<close> on a handle that is already connected raises the argument error
  "already connected to cluster", and on a handle that was shut down it raises "cannot
  reuse shutdown rados handle"; in both cases the handle is unchanged and the backend is
  not called. On a handle that is still configuring, a backend status of 0 makes the
  handle connected and returns 0, and any other status leaves the handle as it was and
  returns the nil-error triple. In any sequence of calls on one handle, at most one
  \<open>connect\<close> succeeds.
\<close>

theorem connect_once:
  "(lua_rados_t.state r = CLUSTER_CONNECTED \<longrightarrow>
      lua_rados_connect E r ret = (Raise (Arg_error 1 ''already connected to cluster''), r, []))
   \<and> (lua_rados_t.state r = CLUSTER_SHUTDOWN \<longrightarrow>
      lua_rados_connect E r ret = (Raise (Arg_error 1 ''cannot reuse shutdown rados handle''), r, []))
   \<and> (lua_rados_t.state r = CLUSTER_CONFIGURING \<and> ret = 0 \<longrightarrow>
      lua_rados_connect E r ret =
        (Return [LNumber 0], r\<lparr>lua_rados_t.state := CLUSTER_CONNECTED\<rparr>, [Rados_connect (cluster r)]))
   \<and> (lua_rados_t.state r = CLUSTER_CONFIGURING \<and> ret \<noteq> 0 \<longrightarrow>
      lua_rados_connect E r ret =
        (Return [LNil, LString (strerror E (- ret)), LNumber ret], r, [Rados_connect (cluster r)]))
   \<and> length (filter connect_succeeded (cluster_outcomes E r ops)) \<le> 1"
  using connect_successes_le_1 [of E r ops]
  by (simp add: cluster_defs)

theorem connect_once_witness:
  "lua_rados_connect linux_host \<lparr>cluster = Some 7, state = CLUSTER_CONFIGURING\<rparr> 0 =
     (Return [LNumber 0], \<lparr>cluster = Some 7, state = CLUSTER_CONNECTED\<rparr>, [Rados_connect (Some 7)])
   \<and> lua_rados_connect linux_host \<lparr>cluster = Some 7, state = CLUSTER_CONNECTED\<rparr> 0 =
     (Raise (Arg_error 1 ''already connected to cluster''),
      \<lparr>cluster = Some 7, state = CLUSTER_CONNECTED\<rparr>, [])
   \<and> lua_rados_connect linux_host \<lparr>cluster = None, state = CLUSTER_SHUTDOWN\<rparr> 0 =
     (Raise (Arg_error 1 ''cannot reuse shutdown rados handle''),
      \<lparr>cluster = None, state = CLUSTER_SHUTDOWN\<rparr>, [])
   \<and> lua_rados_connect linux_host \<lparr>cluster = Some 7, state = CLUSTER_CONFIGURING\<rparr> (- 2) =
     (Return [LNil, LString ''No such file or directory'', LNumber (- 2)],
      \<lparr>cluster = Some 7, state = CLUSTER_CONFIGURING\<rparr>, [Rados_connect (Some 7)])
   \<and> length (filter connect_succeeded
        (cluster_outcomes linux_host \<lparr>cluster = Some 7, state = CLUSTER_CONFIGURING\<rparr>
           [Op_connect (- 2), Op_connect 0, Op_connect 0, Op_shutdown, Op_connect 0])) = 1"
  using connect_once [of "\<lparr>cluster = Some 7, state = CLUSTER_CONFIGURING\<rparr>" linux_host 0 "[]"]
        connect_once [of "\<lparr>cluster = Some 7, state = CLUSTER_CONNECTED\<rparr>" linux_host 0 "[]"]
        connect_once [of "\<lparr>cluster = None, state = CLUSTER_SHUTDOWN\<rparr>" linux_host 0 "[]"]
        connect_once [of "\<lparr>cluster = Some 7, state = CLUSTER_CONFIGURING\<rparr>" linux_host "- 2" "[]"]
  by (simp add: cluster_defs connect_succeeded_def linux_host_def posix_strerror_def)

subsection \<open>Asking whether the handle is connected\<close>



subsection \<open>Finalizing\<close>

lemma cluster_final_append:
  "cluster_final E r (xs @ ys) = cluster_final E (cluster_final E r xs) ys"
  by (induction xs arbitrary: r) simp_all

lemma cluster_calls_append:
  "cluster_calls E r (xs @ ys) = cluster_calls E r xs @ cluster_calls E (cluster_final E r xs) ys"
  by (induction xs arbitrary: r) simp_all

lemma step_release_count:
  assumes "\<not> is_cluster_gc x"
  shows "length (filter releases_cluster (snd (snd (cluster_step E r x)))) =
           (if lua_rados_t.state r = CLUSTER_CONNECTED \<and> x = Op_shutdown then 1 else 0)
         \<and> (lua_rados_t.state r = CLUSTER_SHUTDOWN \<longrightarrow> fst (snd (cluster_step E r x)) = r)
         \<and> (lua_rados_t.state (fst (snd (cluster_step E r x))) = CLUSTER_SHUTDOWN
              \<and> lua_rados_t.state r \<noteq> CLUSTER_SHUTDOWN \<longrightarrow>
              lua_rados_t.state r = CLUSTER_CONNECTED \<and> x = Op_shutdown
              \<and> cluster (fst (snd (cluster_step E r x))) = None)
         \<and> (lua_rados_t.state r = CLUSTER_CONNECTED \<and> x = Op_shutdown \<longrightarrow>
              lua_rados_t.state (fst (snd (cluster_step E r x))) = CLUSTER_SHUTDOWN)"
  using assms
  by (cases x; cases "lua_rados_t.state r")
     (simp_all add: cluster_defs split: sum.splits)

lemma run_release_count:
  assumes "\<not> list_ex is_cluster_gc ops"
  shows "(lua_rados_t.state r = CLUSTER_SHUTDOWN \<longrightarrow>
            cluster_final E r ops = r
            \<and> filter releases_cluster (cluster_calls E r ops) = [])
         \<and> (lua_rados_t.state r \<noteq> CLUSTER_SHUTDOWN \<longrightarrow>
            (if lua_rados_t.state (cluster_final E r ops) = CLUSTER_SHUTDOWN
             then cluster (cluster_final E r ops) = None
                  \<and> length (filter releases_cluster (cluster_calls E r ops)) = 1
             else filter releases_cluster (cluster_calls E r ops) = []))"
  using assms
proof (induction ops arbitrary: r)
  case Nil
  then show ?case by simp
next
  case (Cons x xs)
  then have nx: "\<not> is_cluster_gc x" and nxs: "\<not> list_ex is_cluster_gc xs" by simp_all
  define r1 where "r1 = fst (snd (cluster_step E r x))"
  define k where "k = snd (snd (cluster_step E r x))"
  have fin: "cluster_final E r (x # xs) = cluster_final E r1 xs"
    and cal: "cluster_calls E r (x # xs) = k @ cluster_calls E r1 xs"
    by (simp_all add: r1_def k_def)
  have st: "length (filter releases_cluster k) =
              (if lua_rados_t.state r = CLUSTER_CONNECTED \<and> x = Op_shutdown then 1 else 0)"
    "lua_rados_t.state r = CLUSTER_SHUTDOWN \<Longrightarrow> r1 = r"
    "lua_rados_t.state r1 = CLUSTER_SHUTDOWN \<Longrightarrow> lua_rados_t.state r \<noteq> CLUSTER_SHUTDOWN \<Longrightarrow>
       lua_rados_t.state r = CLUSTER_CONNECTED \<and> x = Op_shutdown \<and> cluster r1 = None"
    "lua_rados_t.state r = CLUSTER_CONNECTED \<and> x = Op_shutdown \<Longrightarrow>
       lua_rados_t.state r1 = CLUSTER_SHUTDOWN"
    using step_release_count [OF nx, of E r] unfolding r1_def k_def by blast+
  note ih = Cons.IH [OF nxs, of r1]
  show ?case
  proof (cases "lua_rados_t.state r = CLUSTER_SHUTDOWN")
    case True
    with st ih show ?thesis unfolding fin cal by simp
  next
    case False
    show ?thesis
    proof (cases "lua_rados_t.state r1 = CLUSTER_SHUTDOWN")
      case True
      with False st ih show ?thesis unfolding fin cal by simp
    next
      case mid: False
      have "filter releases_cluster k = []"
        using st(1) st(4) mid by (cases "lua_rados_t.state r = CLUSTER_CONNECTED \<and> x = Op_shutdown") simp_all
      with mid False ih show ?thesis unfolding fin cal by simp
    qed
  qed
qed

text \<open>
  What one finalization does. The finalizer calls \<open>rados_shutdown\<close> exactly when the
  handle is connected. On a handle that is not connected it makes no call to
  \<open>rados_shutdown\<close>; if the native handle is not null it is given back with \<open>free\<close>.
  Afterwards the state is shutdown. One finalization releases the native handle at most
  once, and so does a sequence of method calls on a live handle in which the finalizer
  runs once, at the end. The finalizer of \<open>src/lua_rados.c\<close>, which has no allocator
  branch, agrees on all of this.
\<close>

lemma cluster_gc_single_finalization:
  "(lua_rados_t.state r \<noteq> CLUSTER_CONNECTED \<longrightarrow>
      \<not> list_ex is_rados_shutdown (snd (lua_rados_cluster_gc r))
      \<and> \<not> list_ex is_rados_shutdown (snd (lua_rados_cluster_gc_v0 r)))
   \<and> (lua_rados_t.state r = CLUSTER_CONNECTED \<longrightarrow>
      snd (lua_rados_cluster_gc r) = [Rados_shutdown (cluster r)]
      \<and> snd (lua_rados_cluster_gc_v0 r) = [Rados_shutdown (cluster r)])
   \<and> (lua_rados_t.state r \<noteq> CLUSTER_CONNECTED \<and> cluster r \<noteq> None \<longrightarrow>
      snd (lua_rados_cluster_gc r) = [Free_cluster (cluster r)])
   \<and> lua_rados_t.state (fst (lua_rados_cluster_gc r)) = CLUSTER_SHUTDOWN
   \<and> lua_rados_t.state (fst (lua_rados_cluster_gc_v0 r)) = CLUSTER_SHUTDOWN
   \<and> length (filter releases_cluster (snd (lua_rados_cluster_gc r))) \<le> 1
   \<and> length (filter releases_cluster (snd (lua_rados_cluster_gc_v0 r))) \<le> 1
   \<and> (lua_rados_t.state r \<noteq> CLUSTER_SHUTDOWN \<and> \<not> list_ex is_cluster_gc ops \<longrightarrow>
      length (filter releases_cluster (cluster_calls E r (ops @ [Op_cluster_gc]))) \<le> 1
      \<and> lua_rados_t.state (cluster_final E r (ops @ [Op_cluster_gc])) = CLUSTER_SHUTDOWN)"
proof -
  have run: "length (filter releases_cluster (cluster_calls E r (ops @ [Op_cluster_gc]))) \<le> 1"
    if a: "lua_rados_t.state r \<noteq> CLUSTER_SHUTDOWN" and b: "\<not> list_ex is_cluster_gc ops"
  proof (cases "lua_rados_t.state (cluster_final E r ops) = CLUSTER_SHUTDOWN")
    case True
    with run_release_count [OF b, of r E] a show ?thesis
      by (simp add: cluster_calls_append lua_rados_cluster_gc_def)
  next
    case False
    with run_release_count [OF b, of r E] a show ?thesis
      by (simp add: cluster_calls_append lua_rados_cluster_gc_def)
  qed
  show ?thesis
    using run
    by (simp add: lua_rados_cluster_gc_def lua_rados_cluster_gc_v0_def cluster_final_append)
qed

lemma cluster_gc_single_finalization_example:
  "snd (lua_rados_cluster_gc \<lparr>cluster = Some 7, state = CLUSTER_CONFIGURING\<rparr>) = [Free_cluster (Some 7)]
   \<and> snd (lua_rados_cluster_gc_v0 \<lparr>cluster = Some 7, state = CLUSTER_CONFIGURING\<rparr>) = []
   \<and> snd (lua_rados_cluster_gc \<lparr>cluster = Some 7, state = CLUSTER_CONNECTED\<rparr>) = [Rados_shutdown (Some 7)]
   \<and> lua_rados_t.state (fst (lua_rados_cluster_gc \<lparr>cluster = Some 7, state = CLUSTER_CONFIGURING\<rparr>))
       = CLUSTER_SHUTDOWN
   \<and> cluster_calls linux_host \<lparr>cluster = Some 7, state = CLUSTER_CONFIGURING\<rparr>
       ([Op_connect (- 2), Op_is_connected] @ [Op_cluster_gc])
       = [Rados_connect (Some 7), Free_cluster (Some 7)]
   \<and> cluster_calls linux_host \<lparr>cluster = Some 7, state = CLUSTER_CONFIGURING\<rparr>
       ([Op_connect 0, Op_shutdown] @ [Op_cluster_gc])
       = [Rados_connect (Some 7), Rados_shutdown (Some 7)]"
  using cluster_gc_single_finalization
          [of "\<lparr>cluster = Some 7, state = CLUSTER_CONFIGURING\<rparr>" "[Op_connect (- 2), Op_is_connected]" linux_host]
        cluster_gc_single_finalization
          [of "\<lparr>cluster = Some 7, state = CLUSTER_CONNECTED\<rparr>" "[]" linux_host]
  by (simp add: cluster_defs lua_rados_cluster_gc_v0_def)

text \<open>
  Claim C4 on a connected handle that is finalized twice. \<open>__gc\<close> is an entry of the
  cluster metatable, which is its own \<open>__index\<close>, so a script can call
  \<open>cluster:__gc ()\<close> and the collector calls the finalizer again later. The first
  call takes the connected branch: \<open>rados_shutdown\<close>, with \<open>rados->cluster\<close> left as it
  is. The second finds a handle that is not connected and not null and calls \<open>free\<close>
  on it: the native handle is released twice, where the claim has at most once.
  \<open>lua_rados_shutdown\<close> sets \<open>rados->cluster\<close> to \<open>NULL\<close> after \<open>rados_shutdown\<close>, so
  finalizers after an explicit shutdown release nothing more, and the finalizer of
  \<open>src/lua_rados.c\<close> never calls \<open>free\<close>.
\<close>

theorem cluster_gc_twice_releases_twice:
  "cluster_calls linux_host \<lparr>cluster = Some 7, state = CLUSTER_CONFIGURING\<rparr>
       [Op_connect 0, Op_cluster_gc, Op_cluster_gc]
     = [Rados_connect (Some 7), Rados_shutdown (Some 7), Free_cluster (Some 7)]
   \<and> length (filter releases_cluster
        (cluster_calls linux_host \<lparr>cluster = Some 7, state = CLUSTER_CONFIGURING\<rparr>
           [Op_connect 0, Op_cluster_gc, Op_cluster_gc])) = 2
   \<and> lua_rados_cluster_gc \<lparr>cluster = Some 7, state = CLUSTER_CONNECTED\<rparr> =
       (\<lparr>cluster = Some 7, state = CLUSTER_SHUTDOWN\<rparr>, [Rados_shutdown (Some 7)])
   \<and> lua_rados_cluster_gc \<lparr>cluster = Some 7, state = CLUSTER_SHUTDOWN\<rparr> =
       (\<lparr>cluster = None, state = CLUSTER_SHUTDOWN\<rparr>, [Free_cluster (Some 7)])
   \<and> cluster_calls linux_host \<lparr>cluster = Some 7, state = CLUSTER_CONFIGURING\<rparr>
       [Op_connect 0, Op_shutdown, Op_cluster_gc, Op_cluster_gc]
     = [Rados_connect (Some 7), Rados_shutdown (Some 7)]
   \<and> snd (lua_rados_cluster_gc_v0
        (fst (lua_rados_cluster_gc_v0 \<lparr>cluster = Some 7, state = CLUSTER_CONNECTED\<rparr>))) = []"
  by (simp add: cluster_defs lua_rados_cluster_gc_v0_def)

subsection \<open>Opening an I/O context\<close>

lemma checkstring_not_string:
  "\<not> lua_isstring v \<Longrightarrow> luaL_checkstring E pos v = Inl (Type_error pos ''string'')"
  by (cases v) (simp_all add: luaL_checkstring_def)

text \<open>
  Claim C7, as stated, fails on a numeric pool name: \<open>luaL_checkstring\<close> converts the
  number and the call goes on to the backend, which here rejects the pool. This is the
  call \<open>cluster_conn:open_ioctx(23423432)\<close> of \<open>test.lua\<close>, expected to return nil.
\<close>

theorem open_ioctx_number_pool_counterexample:
  "lua_rados_open_ioctx linux_host connected_cluster_7 (LNumber 23423432) (- 2)
     \<lparr>ioctx_handle = 0, locator_key = None\<rparr> LTable =
   (Return [LNil, LString ''No such file or directory'', LNumber (- 2)],
    Some \<lparr>io = \<lparr>ioctx_handle = 0, locator_key = None\<rparr>, state = IOCTX_OPEN\<rparr>,
    [Rados_ioctx_create (Some 7) ''23423432''])"
  by (simp add: cluster_defs fixture_defs connected_cluster_7_def arg_defs)

lemma open_ioctx_shutdown:
  "lua_rados_t.state r = CLUSTER_SHUTDOWN \<longrightarrow>
      lua_rados_open_ioctx E r a2 ret nio reg =
        (Raise (Arg_error 1 ''cannot reuse shutdown rados handle''), None, [])"
  by (simp add: cluster_defs)

lemma open_ioctx_configuring:
  "lua_rados_t.state r = CLUSTER_CONFIGURING \<longrightarrow>
      lua_rados_open_ioctx E r a2 ret nio reg =
        (Raise (Arg_error 1 ''not connected to cluster''), None, [])"
  by (simp add: cluster_defs)

lemma open_ioctx_bad_type:
  "lua_rados_t.state r = CLUSTER_CONNECTED \<and> \<not> lua_isstring a2 \<longrightarrow>
      lua_rados_open_ioctx E r a2 ret nio reg = (Raise (Type_error 2 ''string''), None, [])"
  by (simp add: cluster_defs checkstring_not_string)

lemma open_ioctx_number_rejected:
  "lua_rados_t.state r = CLUSTER_CONNECTED \<and> a2 = LNumber n \<and> ret \<noteq> 0 \<longrightarrow>
      lua_rados_open_ioctx E r a2 ret nio reg =
        (Return [LNil, LString (strerror E (- ret)), LNumber ret],
         Some \<lparr>io = nio, state = IOCTX_OPEN\<rparr>,
         [Rados_ioctx_create (cluster r) (lua_number2str E n)])"
  by (simp add: cluster_defs arg_defs)

lemma open_ioctx_string_rejected:
  "lua_rados_t.state r = CLUSTER_CONNECTED \<and> a2 = LString s \<and> ret \<noteq> 0 \<longrightarrow>
      lua_rados_open_ioctx E r a2 ret nio reg =
        (Return [LNil, LString (strerror E (- ret)), LNumber ret],
         Some \<lparr>io = nio, state = IOCTX_OPEN\<rparr>,
         [Rados_ioctx_create (cluster r) s])"
  by (simp add: cluster_defs arg_defs)

lemma open_ioctx_success_needs:
  "fst (lua_rados_open_ioctx E r a2 ret nio reg) = Return [LUserdata] \<longrightarrow>
      lua_rados_t.state r = CLUSTER_CONNECTED \<and> lua_isstring a2 \<and> ret = 0"
  by (cases "lua_rados_t.state r"; cases a2)
     (simp_all add: cluster_defs arg_defs split: if_splits)

lemma open_ioctx_success:
  "lua_rados_t.state r = CLUSTER_CONNECTED \<and> a2 = LString s \<and> ret = 0 \<and> reg = LTable \<longrightarrow>
      lua_rados_open_ioctx E r a2 ret nio reg =
        (Return [LUserdata], Some \<lparr>io = nio, state = IOCTX_OPEN\<rparr>,
         [Rados_ioctx_create (cluster r) s, Refs_settable])"
  by (simp add: cluster_defs arg_defs)

text \<open>
  Claim C7, amended. \<open>open_ioctx\<close> returns an I/O context only on a connected cluster,
  for a pool name that is a string or a number, when the backend answers 0. On a handle
  that is not connected it raises the state error and makes no backend call, so no
  native context is allocated. A pool name that is neither a string nor a number raises
  a type error; a number is converted to its string form and used as the name. When
  the backend rejects the name the call returns nil, the message and the status, and
  does not raise.
\<close>

theorem open_ioctx_checks:
  "(lua_rados_t.state r = CLUSTER_SHUTDOWN \<longrightarrow>
      lua_rados_open_ioctx E r a2 ret nio reg =
        (Raise (Arg_error 1 ''cannot reuse shutdown rados handle''), None, []))
   \<and> (lua_rados_t.state r = CLUSTER_CONFIGURING \<longrightarrow>
      lua_rados_open_ioctx E r a2 ret nio reg =
        (Raise (Arg_error 1 ''not connected to cluster''), None, []))
   \<and> (lua_rados_t.state r = CLUSTER_CONNECTED \<and> \<not> lua_isstring a2 \<longrightarrow>
      lua_rados_open_ioctx E r a2 ret nio reg = (Raise (Type_error 2 ''string''), None, []))
   \<and> (lua_rados_t.state r = CLUSTER_CONNECTED \<and> a2 = LNumber n \<and> ret \<noteq> 0 \<longrightarrow>
      lua_rados_open_ioctx E r a2 ret nio reg =
        (Return [LNil, LString (strerror E (- ret)), LNumber ret],
         Some \<lparr>io = nio, state = IOCTX_OPEN\<rparr>,
         [Rados_ioctx_create (cluster r) (lua_number2str E n)]))
   \<and> (lua_rados_t.state r = CLUSTER_CONNECTED \<and> a2 = LString s \<and> ret \<noteq> 0 \<longrightarrow>
      lua_rados_open_ioctx E r a2 ret nio reg =
        (Return [LNil, LString (strerror E (- ret)), LNumber ret],
         Some \<lparr>io = nio, state = IOCTX_OPEN\<rparr>,
         [Rados_ioctx_create (cluster r) s]))
   \<and> (fst (lua_rados_open_ioctx E r a2 ret nio reg) = Return [LUserdata] \<longrightarrow>
      lua_rados_t.state r = CLUSTER_CONNECTED \<and> lua_isstring a2 \<and> ret = 0)
   \<and> (lua_rados_t.state r = CLUSTER_CONNECTED \<and> a2 = LString s \<and> ret = 0 \<and> reg = LTable \<longrightarrow>
      lua_rados_open_ioctx E r a2 ret nio reg =
        (Return [LUserdata], Some \<lparr>io = nio, state = IOCTX_OPEN\<rparr>,
         [Rados_ioctx_create (cluster r) s, Refs_settable]))"
  by (intro conjI open_ioctx_shutdown open_ioctx_configuring open_ioctx_bad_type
        open_ioctx_number_rejected open_ioctx_string_rejected open_ioctx_success_needs
        open_ioctx_success)

theorem open_ioctx_checks_witness:
  "lua_rados_open_ioctx linux_host \<lparr>cluster = Some 7, state = CLUSTER_CONFIGURING\<rparr>
       (LString ''rbd'') 0 \<lparr>ioctx_handle = 3, locator_key = None\<rparr> LTable =
     (Raise (Arg_error 1 ''not connected to cluster''), None, [])
   \<and> lua_rados_open_ioctx linux_host \<lparr>cluster = None, state = CLUSTER_SHUTDOWN\<rparr>
       (LString ''rbd'') 0 \<lparr>ioctx_handle = 3, locator_key = None\<rparr> LTable =
     (Raise (Arg_error 1 ''cannot reuse shutdown rados handle''), None, [])
   \<and> lua_rados_open_ioctx linux_host connected_cluster_7
       LTable 0 \<lparr>ioctx_handle = 3, locator_key = None\<rparr> LTable =
     (Raise (Type_error 2 ''string''), None, [])
   \<and> lua_rados_open_ioctx linux_host connected_cluster_7
       (LString ''asdlfk'') (- 2) \<lparr>ioctx_handle = 3, locator_key = None\<rparr> LTable =
     (Return [LNil, LString ''No such file or directory'', LNumber (- 2)],
      Some \<lparr>io = \<lparr>ioctx_handle = 3, locator_key = None\<rparr>, state = IOCTX_OPEN\<rparr>,
      [Rados_ioctx_create (Some 7) ''asdlfk''])
   \<and> lua_rados_open_ioctx linux_host connected_cluster_7
       (LNumber 23423432) (- 2) \<lparr>ioctx_handle = 3, locator_key = None\<rparr> LTable =
     (Return [LNil, LString ''No such file or directory'', LNumber (- 2)],
      Some \<lparr>io = \<lparr>ioctx_handle = 3, locator_key = None\<rparr>, state = IOCTX_OPEN\<rparr>,
      [Rados_ioctx_create (Some 7) ''23423432''])
   \<and> lua_rados_open_ioctx linux_host connected_cluster_7
       (LString ''rbd'') 0 \<lparr>ioctx_handle = 3, locator_key = None\<rparr> LTable =
     (Return [LUserdata],
      Some \<lparr>io = \<lparr>ioctx_handle = 3, locator_key = None\<rparr>, state = IOCTX_OPEN\<rparr>,
      [Rados_ioctx_create (Some 7) ''rbd'', Refs_settable])"
  using open_ioctx_checks [of "\<lparr>cluster = Some 7, state = CLUSTER_CONFIGURING\<rparr>" linux_host
          "LString ''rbd''" 0 "\<lparr>ioctx_handle = 3, locator_key = None\<rparr>" LTable 0 "''rbd''"]
        open_ioctx_checks [of "\<lparr>cluster = None, state = CLUSTER_SHUTDOWN\<rparr>" linux_host
          "LString ''rbd''" 0 "\<lparr>ioctx_handle = 3, locator_key = None\<rparr>" LTable 0 "''rbd''"]
        open_ioctx_checks [of connected_cluster_7 linux_host
          LTable 0 "\<lparr>ioctx_handle = 3, locator_key = None\<rparr>" LTable 0 "''rbd''"]
        open_ioctx_checks [of connected_cluster_7 linux_host
          "LString ''asdlfk''" "- 2" "\<lparr>ioctx_handle = 3, locator_key = None\<rparr>" LTable 0 "''asdlfk''"]
        open_ioctx_checks [of connected_cluster_7 linux_host
          "LNumber 23423432" "- 2" "\<lparr>ioctx_handle = 3, locator_key = None\<rparr>" LTable 23423432 "''rbd''"]
        open_ioctx_checks [of connected_cluster_7 linux_host
          "LString ''rbd''" 0 "\<lparr>ioctx_handle = 3, locator_key = None\<rparr>" LTable 0 "''rbd''"]
  by (simp add: fixture_defs connected_cluster_7_def)

section \<open>The I/O context\<close>

subsection \<open>The locator key of synchronous calls\<close>

lemma stat_key_scoped:
  assumes "lua_ioctx_t.state ioctx = IOCTX_OPEN"
    and "luaL_optstring E 2 a2 = Inr loc" and "luaL_checkstring E 3 a3 = Inr oid"
  shows "snd (snd (lua_rados_ioctx_stat E ioctx a2 a3 B)) =
           [Rados_ioctx_locator_set_key loc,
            Rados_stat ((io ioctx)\<lparr>locator_key := loc\<rparr>) oid,
            Rados_ioctx_locator_set_key None]"
    and "locator_key (io (fst (snd (lua_rados_ioctx_stat E ioctx a2 a3 B)))) = None"
  using assms by (simp_all add: ioctx_defs)

lemma read_key_scoped:
  assumes "lua_ioctx_t.state ioctx = IOCTX_OPEN"
    and "luaL_optstring E 2 a2 = Inr loc" and "luaL_checkstring E 3 a3 = Inr oid"
    and "luaL_checkinteger E 4 a4 = Inr len" and "luaL_checkinteger E 5 a5 = Inr offset"
    and "fst (lua_rados_newbuffer m (ucast (word_of_int len :: 64 word))) = Some b"
  shows "snd (snd (snd (lua_rados_ioctx_read E ioctx a2 a3 a4 a5 m B))) =
           snd (snd (lua_rados_newbuffer m (ucast (word_of_int len :: 64 word)))) @
           [Rados_ioctx_locator_set_key loc,
            Rados_read ((io ioctx)\<lparr>locator_key := loc\<rparr>) oid (word_of_int len) (word_of_int offset),
            Rados_ioctx_locator_set_key None]"
    and "locator_key (io (fst (snd (lua_rados_ioctx_read E ioctx a2 a3 a4 a5 m B)))) = None"
  using assms by (simp_all add: ioctx_defs)

lemma step_key_stays_none:
  "locator_key (io ioctx) = None \<Longrightarrow> locator_key (io (fst (snd (ioctx_step E ioctx x)))) = None"
  by (cases x) (simp_all add: ioctx_defs split: sum.splits option.splits)

lemma step_ignores_old_key:
  "fst (ioctx_step E (with_key ioctx k) x) = fst (ioctx_step E ioctx x)"
  "snd (snd (ioctx_step E (with_key ioctx k) x)) = snd (snd (ioctx_step E ioctx x))"
  by (cases x; simp add: ioctx_defs with_key_def split: sum.splits option.splits)+

lemma after_step_is_with_key:
  "\<exists>k. fst (snd (ioctx_step E ioctx x)) = with_key ioctx k"
proof -
  have "fst (snd (ioctx_step E ioctx x)) = with_key ioctx (locator_key (io ioctx))
        \<or> fst (snd (ioctx_step E ioctx x)) = with_key ioctx None"
    by (cases x) (simp_all add: ioctx_defs with_key_def split: sum.splits option.splits)
  then show ?thesis by blast
qed

text \<open>
  Claim C2. A \<open>stat\<close> or \<open>read\<close> on an open context sets the native locator key to the
  key of the call just before the one backend request, which sees that key, and sets it
  back to none just after, whatever the backend's status. A call that returns before
  the request (an argument error, no buffer) does not touch the key, so a context whose
  key is none keeps it so. The outcome and the backend calls of a call made after
  another one are those of the same call made on the context as it was before: nothing
  of the first call, its key included, reaches the second.
\<close>

theorem locator_key_scoped:
  "(lua_ioctx_t.state ioctx = IOCTX_OPEN \<and> luaL_optstring E 2 a2 = Inr loc
      \<and> luaL_checkstring E 3 a3 = Inr oid \<longrightarrow>
      snd (snd (lua_rados_ioctx_stat E ioctx a2 a3 rados_stat)) =
        [Rados_ioctx_locator_set_key loc,
         Rados_stat ((io ioctx)\<lparr>locator_key := loc\<rparr>) oid,
         Rados_ioctx_locator_set_key None]
      \<and> locator_key (io (fst (snd (lua_rados_ioctx_stat E ioctx a2 a3 rados_stat)))) = None)
   \<and> (lua_ioctx_t.state ioctx = IOCTX_OPEN \<and> luaL_optstring E 2 a2 = Inr loc
      \<and> luaL_checkstring E 3 a3 = Inr oid \<and> luaL_checkinteger E 4 a4 = Inr len
      \<and> luaL_checkinteger E 5 a5 = Inr offset
      \<and> fst (lua_rados_newbuffer m (ucast (word_of_int len :: 64 word))) = Some b \<longrightarrow>
      snd (snd (snd (lua_rados_ioctx_read E ioctx a2 a3 a4 a5 m rados_read))) =
        snd (snd (lua_rados_newbuffer m (ucast (word_of_int len :: 64 word)))) @
        [Rados_ioctx_locator_set_key loc,
         Rados_read ((io ioctx)\<lparr>locator_key := loc\<rparr>) oid (word_of_int len) (word_of_int offset),
         Rados_ioctx_locator_set_key None]
      \<and> locator_key (io (fst (snd (lua_rados_ioctx_read E ioctx a2 a3 a4 a5 m rados_read)))) = None)
   \<and> (locator_key (io ioctx) = None \<longrightarrow>
      locator_key (io (fst (snd (ioctx_step E ioctx x)))) = None)
   \<and> fst (ioctx_step E (fst (snd (ioctx_step E ioctx x))) y) = fst (ioctx_step E ioctx y)
   \<and> snd (snd (ioctx_step E (fst (snd (ioctx_step E ioctx x))) y)) = snd (snd (ioctx_step E ioctx y))"
proof -
  obtain k where k: "fst (snd (ioctx_step E ioctx x)) = with_key ioctx k"
    using after_step_is_with_key by blast
  show ?thesis
    using stat_key_scoped [of ioctx E a2 loc a3 oid rados_stat]
      read_key_scoped [of ioctx E a2 loc a3 oid a4 len a5 offset m b rados_read]
      step_key_stays_none [of ioctx E x]
    unfolding k step_ignores_old_key
    by blast
qed

theorem locator_key_scoped_witness:
  "fst (lua_rados_ioctx_stat linux_host open_ioctx_1 (LString ''k1'') (LString ''obj'') keyed_stat) =
     Return [LNumber 10, LNumber 1700000000]
   \<and> snd (snd (lua_rados_ioctx_stat linux_host open_ioctx_1 (LString ''k1'') (LString ''obj'') keyed_stat)) =
     [Rados_ioctx_locator_set_key (Some ''k1''),
      Rados_stat \<lparr>ioctx_handle = 1, locator_key = Some ''k1''\<rparr> ''obj'',
      Rados_ioctx_locator_set_key None]
   \<and> fst (snd (lua_rados_ioctx_stat linux_host open_ioctx_1 (LString ''k1'') (LString ''obj'') keyed_stat)) =
     open_ioctx_1
   \<and> fst (ioctx_step linux_host
        (fst (snd (ioctx_step linux_host open_ioctx_1 (Op_stat (LString ''k1'') (LString ''obj'') keyed_stat))))
        (Op_stat LNil (LString ''obj'') keyed_stat)) =
     Return [LNil, LString ''No such file or directory'', LNumber (- 2)]
   \<and> fst (ioctx_step linux_host
        (fst (snd (ioctx_step linux_host open_ioctx_1
           (Op_read (LString ''k1'') (LString ''obj'') (LNumber 2) (LNumber 0) True keyed_read))))
        (Op_read LNil (LString ''obj'') (LNumber 2) (LNumber 0) True keyed_read)) =
     Return [LNil, LString ''No such file or directory'', LNumber (- 2)]
   \<and> ioctx_step linux_host open_ioctx_1
        (Op_read (LString ''k1'') (LString ''obj'') (LNumber 2) (LNumber 0) True keyed_read) =
     (Return [LString ''ab''], open_ioctx_1,
      [Malloc 2, Rados_ioctx_locator_set_key (Some ''k1''),
       Rados_read \<lparr>ioctx_handle = 1, locator_key = Some ''k1''\<rparr> ''obj'' 2 0,
       Rados_ioctx_locator_set_key None])"
  using locator_key_scoped
    [of open_ioctx_1 linux_host "LString ''k1''" "Some ''k1''" "LString ''obj''" "''obj''" keyed_stat
        "LNumber 2" 2 "LNumber 0" 0 True "[CHR 0x00, CHR 0x00]" keyed_read
        "Op_stat (LString ''k1'') (LString ''obj'') keyed_stat" "Op_stat LNil (LString ''obj'') keyed_stat"]
  by (simp add: ioctx_defs fixture_defs keyed_stat_def keyed_read_def arg_defs
        lua_rados_newbuffer_def lua_rados_pusherror_def)

subsection \<open>Submitting an asynchronous stat\<close>

text \<open>
  Claim C6, as stated, fails when the submission reports an error: the caller gets nil,
  the message and the status, not the Completion, although the Completion was created
  and holds a token.
\<close>

theorem aio_stat_submission_failure_counterexample:
  "fst (lua_rados_ioctx_aio_stat linux_host 0 open_ioctx_1 LNil (LString ''obj'')
          raw_completion 0 5 enoent_aio_stat) =
     Return [LNil, LString ''No such file or directory'', LNumber (- 2)]
   \<and> fst (lua_rados_ioctx_aio_stat linux_host 0 open_ioctx_1 LNil (LString ''obj'')
          raw_completion 0 5 enoent_aio_stat) \<noteq> Return [LUserdata]
   \<and> fst (snd (snd (snd (lua_rados_ioctx_aio_stat linux_host 0 open_ioctx_1 LNil (LString ''obj'')
          raw_completion 0 5 enoent_aio_stat)))) =
     Some \<lparr>completion = Some 5, state = COMPLETION_STAT, size_c = 77, mtime = 55, buf = None\<rparr>"
  by (simp add: aio_defs fixture_defs enoent_aio_stat_def arg_defs)

lemma aio_stat_creates:
  "lua_ioctx_t.state ioctx = IOCTX_OPEN \<and> luaL_optstring E 2 a2 = Inr loc
     \<and> luaL_checkstring E 3 a3 = Inr oid \<longrightarrow>
   fst (snd (snd (snd (lua_rados_ioctx_aio_stat E n ioctx a2 a3 raw cret tok f)))) =
     Some (raw\<lparr>completion := (if cret = 0 then Some tok else None),
                lua_completion_t.state := COMPLETION_STAT\<rparr>)"
  by (simp add: aio_defs)

lemma aio_stat_returns_completion:
  "lua_ioctx_t.state ioctx = IOCTX_OPEN \<and> luaL_optstring E 2 a2 = Inr loc
     \<and> luaL_checkstring E 3 a3 = Inr oid \<and> cret = 0
     \<and> f ((io ioctx)\<lparr>locator_key := loc\<rparr>) oid = 0 \<longrightarrow>
   fst (lua_rados_ioctx_aio_stat E n ioctx a2 a3 raw cret tok f) = Return [LUserdata]"
  by (simp add: aio_defs)

lemma aio_stat_submit_error:
  "lua_ioctx_t.state ioctx = IOCTX_OPEN \<and> luaL_optstring E 2 a2 = Inr loc
     \<and> luaL_checkstring E 3 a3 = Inr oid \<and> cret = 0
     \<and> f ((io ioctx)\<lparr>locator_key := loc\<rparr>) oid \<noteq> 0 \<longrightarrow>
   fst (lua_rados_ioctx_aio_stat E n ioctx a2 a3 raw cret tok f) =
     Return [LNil, LString (strerror E (- f ((io ioctx)\<lparr>locator_key := loc\<rparr>) oid)),
             LNumber (f ((io ioctx)\<lparr>locator_key := loc\<rparr>) oid)]"
  by (simp add: aio_defs)

lemma aio_stat_create_error:
  "lua_ioctx_t.state ioctx = IOCTX_OPEN \<and> luaL_optstring E 2 a2 = Inr loc
     \<and> luaL_checkstring E 3 a3 = Inr oid \<and> cret \<noteq> 0 \<longrightarrow>
   fst (lua_rados_ioctx_aio_stat E n ioctx a2 a3 raw cret tok f) =
     Return [LNil, LString (strerror E (- cret)), LNumber cret]
   \<and> snd (snd (snd (snd (lua_rados_ioctx_aio_stat E n ioctx a2 a3 raw cret tok f)))) =
     [Rados_aio_create_completion]
   \<and> fst (snd (snd (lua_rados_ioctx_aio_stat E n ioctx a2 a3 raw cret tok f))) = ioctx"
  by (simp add: aio_defs)

lemma aio_stat_key_scoped:
  "lua_ioctx_t.state ioctx = IOCTX_OPEN \<and> luaL_optstring E 2 a2 = Inr loc
     \<and> luaL_checkstring E 3 a3 = Inr oid \<and> cret = 0 \<longrightarrow>
   snd (snd (snd (snd (lua_rados_ioctx_aio_stat E n ioctx a2 a3 raw cret tok f)))) =
     [Rados_aio_create_completion, Rados_ioctx_locator_set_key loc,
      Rados_aio_stat ((io ioctx)\<lparr>locator_key := loc\<rparr>) oid (Some tok),
      Rados_ioctx_locator_set_key None]
   \<and> locator_key (io (fst (snd (snd (lua_rados_ioctx_aio_stat E n ioctx a2 a3 raw cret tok f))))) = None"
  by (simp add: aio_defs)

text \<open>
  Claim C6, amended. An \<open>aio_stat\<close> on an open context with well-typed arguments always
  creates a Completion of kind stat. The caller receives it only when the creation of
  the token and the submission both answer 0. When either answers another status the
  caller receives nil, the message and that status at once, and the Completion is left
  to the collector. When the token was created, the locator key is set just before the
  submission, which sees it, and set back to none just after.
\<close>

theorem aio_stat_completion_returned_on_success:
  "(lua_ioctx_t.state ioctx = IOCTX_OPEN \<and> luaL_optstring E 2 a2 = Inr loc
     \<and> luaL_checkstring E 3 a3 = Inr oid \<longrightarrow>
   fst (snd (snd (snd (lua_rados_ioctx_aio_stat E n ioctx a2 a3 raw cret tok f)))) =
     Some (raw\<lparr>completion := (if cret = 0 then Some tok else None),
                lua_completion_t.state := COMPLETION_STAT\<rparr>))
   \<and> (lua_ioctx_t.state ioctx = IOCTX_OPEN \<and> luaL_optstring E 2 a2 = Inr loc
     \<and> luaL_checkstring E 3 a3 = Inr oid \<and> cret = 0
     \<and> f ((io ioctx)\<lparr>locator_key := loc\<rparr>) oid = 0 \<longrightarrow>
   fst (lua_rados_ioctx_aio_stat E n ioctx a2 a3 raw cret tok f) = Return [LUserdata])
   \<and> (lua_ioctx_t.state ioctx = IOCTX_OPEN \<and> luaL_optstring E 2 a2 = Inr loc
     \<and> luaL_checkstring E 3 a3 = Inr oid \<and> cret = 0
     \<and> f ((io ioctx)\<lparr>locator_key := loc\<rparr>) oid \<noteq> 0 \<longrightarrow>
   fst (lua_rados_ioctx_aio_stat E n ioctx a2 a3 raw cret tok f) =
     Return [LNil, LString (strerror E (- f ((io ioctx)\<lparr>locator_key := loc\<rparr>) oid)),
             LNumber (f ((io ioctx)\<lparr>locator_key := loc\<rparr>) oid)])
   \<and> (lua_ioctx_t.state ioctx = IOCTX_OPEN \<and> luaL_optstring E 2 a2 = Inr loc
     \<and> luaL_checkstring E 3 a3 = Inr oid \<and> cret \<noteq> 0 \<longrightarrow>
   fst (lua_rados_ioctx_aio_stat E n ioctx a2 a3 raw cret tok f) =
     Return [LNil, LString (strerror E (- cret)), LNumber cret]
   \<and> snd (snd (snd (snd (lua_rados_ioctx_aio_stat E n ioctx a2 a3 raw cret tok f)))) =
     [Rados_aio_create_completion]
   \<and> fst (snd (snd (lua_rados_ioctx_aio_stat E n ioctx a2 a3 raw cret tok f))) = ioctx)
   \<and> (lua_ioctx_t.state ioctx = IOCTX_OPEN \<and> luaL_optstring E 2 a2 = Inr loc
     \<and> luaL_checkstring E 3 a3 = Inr oid \<and> cret = 0 \<longrightarrow>
   snd (snd (snd (snd (lua_rados_ioctx_aio_stat E n ioctx a2 a3 raw cret tok f)))) =
     [Rados_aio_create_completion, Rados_ioctx_locator_set_key loc,
      Rados_aio_stat ((io ioctx)\<lparr>locator_key := loc\<rparr>) oid (Some tok),
      Rados_ioctx_locator_set_key None]
   \<and> locator_key (io (fst (snd (snd (lua_rados_ioctx_aio_stat E n ioctx a2 a3 raw cret tok f))))) = None)"
  by (intro conjI aio_stat_creates aio_stat_returns_completion aio_stat_submit_error
        aio_stat_create_error aio_stat_key_scoped)

theorem aio_stat_completion_returned_on_success_witness:
  "lua_rados_ioctx_aio_stat linux_host 0 open_ioctx_1 (LString ''k1'') (LString ''obj'')
       raw_completion 0 5 ok_aio_stat =
     (Return [LUserdata], 1, open_ioctx_1,
      Some \<lparr>completion = Some 5, state = COMPLETION_STAT, size_c = 77, mtime = 55, buf = None\<rparr>,
      [Rados_aio_create_completion, Rados_ioctx_locator_set_key (Some ''k1''),
       Rados_aio_stat \<lparr>ioctx_handle = 1, locator_key = Some ''k1''\<rparr> ''obj'' (Some 5),
       Rados_ioctx_locator_set_key None])
   \<and> lua_rados_ioctx_aio_stat linux_host 0 open_ioctx_1 (LString ''k1'') (LString ''obj'')
       raw_completion 0 5 enoent_aio_stat =
     (Return [LNil, LString ''No such file or directory'', LNumber (- 2)], 1, open_ioctx_1,
      Some \<lparr>completion = Some 5, state = COMPLETION_STAT, size_c = 77, mtime = 55, buf = None\<rparr>,
      [Rados_aio_create_completion, Rados_ioctx_locator_set_key (Some ''k1''),
       Rados_aio_stat \<lparr>ioctx_handle = 1, locator_key = Some ''k1''\<rparr> ''obj'' (Some 5),
       Rados_ioctx_locator_set_key None])
   \<and> lua_rados_ioctx_aio_stat linux_host 0 open_ioctx_1 (LString ''k1'') (LString ''obj'')
       raw_completion (- 12) 5 ok_aio_stat =
     (Return [LNil, LString ''Cannot allocate memory'', LNumber (- 12)], 0, open_ioctx_1,
      Some \<lparr>completion = None, state = COMPLETION_STAT, size_c = 77, mtime = 55, buf = None\<rparr>,
      [Rados_aio_create_completion])"
  using aio_stat_completion_returned_on_success
          [where ioctx = open_ioctx_1 and E = linux_host and ?a2.0 = "LString ''k1''"
             and loc = "Some ''k1''" and ?a3.0 = "LString ''obj''" and oid = "''obj''"
             and cret = 0 and f = ok_aio_stat and tok = 5 and raw = raw_completion and n = 0]
        aio_stat_completion_returned_on_success
          [where ioctx = open_ioctx_1 and E = linux_host and ?a2.0 = "LString ''k1''"
             and loc = "Some ''k1''" and ?a3.0 = "LString ''obj''" and oid = "''obj''"
             and cret = 0 and f = enoent_aio_stat and tok = 5 and raw = raw_completion and n = 0]
        aio_stat_completion_returned_on_success
          [where ioctx = open_ioctx_1 and E = linux_host and ?a2.0 = "LString ''k1''"
             and loc = "Some ''k1''" and ?a3.0 = "LString ''obj''" and oid = "''obj''"
             and cret = "- 12" and f = ok_aio_stat and tok = 5 and raw = raw_completion and n = 0]
  by (simp add: aio_defs fixture_defs ok_aio_stat_def enoent_aio_stat_def arg_defs)

section \<open>Completions\<close>

subsection \<open>Harvesting the result\<close>

lemma get_return_value_stat:
  "lua_completion_t.state c = COMPLETION_STAT \<Longrightarrow> 0 \<le> ret \<Longrightarrow>
     lua_rados_completion_get_return_value E c ret =
       Return [LNumber (sint (size_c c)), LNumber (sint (mtime c))]"
  by (simp add: lua_rados_completion_get_return_value_def)

lemma get_return_value_read:
  "lua_completion_t.state c = COMPLETION_READ \<Longrightarrow> 0 \<le> ret \<Longrightarrow> buf c = Some b \<Longrightarrow>
     lua_rados_completion_get_return_value E c ret = Return [LString (take (unat (size_c c)) b)]"
  by (simp add: lua_rados_completion_get_return_value_def)

text \<open>
  Claim C1 on a short read. \<open>aio_read\<close> for 4 bytes creates a Completion with
  \<open>size = 4\<close> and a 4-byte block; the object has 2 bytes, so the backend stores \<open>ab\<close>
  and reports 2. \<open>get_return_value\<close> returns all 4 bytes of the block, the last two
  never written by the backend, where the claim has the 2 bytes read. The synchronous
  \<open>read\<close> of the same object returns the 2 bytes.
\<close>

theorem get_return_value_read_whole_buffer:
  "fst (snd (snd (snd (lua_rados_ioctx_aio_read linux_host 0 open_ioctx_1 LNil (LString ''obj'')
       (LNumber 4) (LNumber 0) raw_completion (Some ''zzzz'') 0 5 ok_aio_read)))) =
     Some (short_read_completion\<lparr>buf := Some ''zzzz''\<rparr>)
   \<and> lua_rados_completion_get_return_value linux_host short_read_completion 2 =
     Return [LString ''abzz'']
   \<and> fst (lua_rados_ioctx_read linux_host open_ioctx_1 LNil (LString ''obj'')
       (LNumber 4) (LNumber 0) True two_byte_read) =
     Return [LString ''ab'']"
  by (simp add: aio_defs ioctx_defs fixture_defs ok_aio_read_def two_byte_read_def
        short_read_completion_def arg_defs lua_rados_newbuffer_def
        lua_rados_completion_get_return_value_def)

section \<open>Read buffers\<close>

text \<open>
  \<open>lua_rados_newbuffer\<close> never asks \<open>malloc\<close> for 0 bytes and hands out a zeroed block;
  the finalizers of the buffer userdata and of a Completion free a block once and find
  nothing to free when they run again.
\<close>

lemma newbuffer_never_zero_size:
  "Malloc 0 \<notin> set (snd (snd (lua_rados_newbuffer m sz)))"
  by (simp add: lua_rados_newbuffer_def Let_def unat_eq_0)

lemma newbuffer_zeroed:
  "fst (lua_rados_newbuffer m sz) = Some b \<Longrightarrow>
     b = replicate (if sz = 0 then 1 else unat sz) (CHR 0x00)
     \<and> snd (snd (lua_rados_newbuffer m sz)) = [Malloc (length b)]"
  by (auto simp add: lua_rados_newbuffer_def Let_def split: if_splits)

lemma buffer_gc_frees_once:
  "lua_rados_buffer_gc (Some b) = (None, [Free_buffer])"
  "lua_rados_buffer_gc (fst (lua_rados_buffer_gc pbuf)) = (None, [])"
  by (simp_all add: lua_rados_buffer_gc_def)

lemma completion_gc_frees_once:
  "snd (snd (lua_rados_completion_gc n (fst (snd (lua_rados_completion_gc n0 c))))) = []"
  by (simp add: lua_rados_completion_gc_def Let_def)


text \<open>
  Claim C5 on a read of length 0. \<open>aio_read\<close> calls \<open>malloc (0)\<close>, and where that
  returns \<open>NULL\<close> the call fails with \<open>ENOMEM\<close>. \<open>lua_rados_newbuffer\<close>, used by the
  synchronous \<open>read\<close>, asks for 1 byte, and the read returns the empty string.
\<close>

theorem aio_read_zero_length_malloc_0:
  "snd (snd (snd (snd (lua_rados_ioctx_aio_read linux_host 0 open_ioctx_1 LNil (LString ''obj'')
       (LNumber 0) (LNumber 0) raw_completion (Some []) 0 5 ok_aio_read)))) =
     [Malloc 0, Rados_aio_create_completion, Rados_ioctx_locator_set_key None,
      Rados_aio_read \<lparr>ioctx_handle = 1, locator_key = None\<rparr> ''obj'' (Some 5) 0 0,
      Rados_ioctx_locator_set_key None]
   \<and> fst (lua_rados_ioctx_aio_read linux_host 0 open_ioctx_1 LNil (LString ''obj'')
       (LNumber 0) (LNumber 0) raw_completion None 0 5 ok_aio_read) =
     Return [LNil, LString ''Cannot allocate memory'', LNumber (- 12)]
   \<and> snd (snd (lua_rados_newbuffer True 0)) = [Malloc 1]
   \<and> lua_rados_ioctx_read linux_host open_ioctx_1 LNil (LString ''obj'')
       (LNumber 0) (LNumber 0) True two_byte_read =
     (Return [LString []], open_ioctx_1, Some (Some [CHR 0x00]),
      [Malloc 1, Rados_ioctx_locator_set_key None,
       Rados_read \<lparr>ioctx_handle = 1, locator_key = None\<rparr> ''obj'' 0 0,
       Rados_ioctx_locator_set_key None])"
  by (simp add: aio_defs ioctx_defs fixture_defs ok_aio_read_def two_byte_read_def arg_defs
        lua_rados_newbuffer_def)

section \<open>The shape of backend failures\<close>

lemma create_error:
  "luaL_optstring E 1 a1 = Inr user \<and> ret < 0 \<longrightarrow>
     fst (lua_rados_create E a1 ret cl) =
       Return [LNil, LString (strerror E (- ret)), LNumber ret]"
  by (simp add: lua_rados_create_def lua_rados_pusherror_def)

lemma conf_read_file_error:
  "lua_rados_t.state r \<noteq> CLUSTER_SHUTDOWN \<and> luaL_optstring E 2 a2 = Inr path \<and> ret < 0 \<longrightarrow>
     fst (lua_rados_conf_read_file E r a2 ret) =
       Return [LNil, LString (strerror E (- ret)), LNumber ret]"
  by (simp add: cluster_defs)

lemma connect_error:
  "lua_rados_t.state r = CLUSTER_CONFIGURING \<and> ret < 0 \<longrightarrow>
     fst (lua_rados_connect E r ret) =
       Return [LNil, LString (strerror E (- ret)), LNumber ret]"
  by (simp add: cluster_defs)

lemma open_ioctx_error:
  "lua_rados_t.state r = CLUSTER_CONNECTED \<and> luaL_checkstring E 2 a2 = Inr pool \<and> ret < 0 \<longrightarrow>
     fst (lua_rados_open_ioctx E r a2 ret nio reg) =
       Return [LNil, LString (strerror E (- ret)), LNumber ret]"
  by (simp add: cluster_defs)

lemma service_register_error:
  "lua_rados_t.state r = CLUSTER_CONNECTED \<and> luaL_checkstring E 2 a2 = Inr service
     \<and> luaL_checkstring E 3 a3 = Inr daemon \<and> ret < 0 \<longrightarrow>
     fst (lua_rados_service_register E r a2 a3 ret) =
       Return [LNil, LString (strerror E (- ret)), LNumber ret]"
  by (simp add: cluster_defs)

lemma stat_error:
  "lua_ioctx_t.state ioctx = IOCTX_OPEN \<and> luaL_optstring E 2 b2 = Inr loc
     \<and> luaL_checkstring E 3 b3 = Inr oid
     \<and> fst (rados_stat ((io ioctx)\<lparr>locator_key := loc\<rparr>) oid) = ret \<and> ret < 0 \<longrightarrow>
     fst (lua_rados_ioctx_stat E ioctx b2 b3 rados_stat) =
       Return [LNil, LString (strerror E (- ret)), LNumber ret]"
  by (auto simp add: ioctx_defs lua_rados_pusherror_def)

lemma read_error:
  "lua_ioctx_t.state ioctx = IOCTX_OPEN \<and> luaL_optstring E 2 b2 = Inr loc
     \<and> luaL_checkstring E 3 b3 = Inr oid \<and> luaL_checkinteger E 4 b4 = Inr len
     \<and> luaL_checkinteger E 5 b5 = Inr offset
     \<and> fst (lua_rados_newbuffer m (ucast (word_of_int len :: 64 word))) = Some b
     \<and> fst (rados_read ((io ioctx)\<lparr>locator_key := loc\<rparr>) oid b
              (word_of_int len) (word_of_int offset)) = ret
     \<and> ret < 0 \<longrightarrow>
     fst (lua_rados_ioctx_read E ioctx b2 b3 b4 b5 m rados_read) =
       Return [LNil, LString (strerror E (- ret)), LNumber ret]"
  by (auto simp add: ioctx_defs lua_rados_pusherror_def)

lemma read_no_buffer:
  "lua_ioctx_t.state ioctx = IOCTX_OPEN \<and> luaL_optstring E 2 b2 = Inr loc
     \<and> luaL_checkstring E 3 b3 = Inr oid \<and> luaL_checkinteger E 4 b4 = Inr len
     \<and> luaL_checkinteger E 5 b5 = Inr offset
     \<and> fst (lua_rados_newbuffer m (ucast (word_of_int len :: 64 word))) = None \<longrightarrow>
     fst (lua_rados_ioctx_read E ioctx b2 b3 b4 b5 m rados_read) =
       Return [LNil, LString (strerror E (ENOMEM E)), LNumber (- ENOMEM E)]"
  by (auto simp add: ioctx_defs lua_rados_pusherror_def)

lemma newbuffer_fails_iff:
  "(fst (lua_rados_newbuffer m sz) = None) = (sint sz < 0 \<or> \<not> m)"
  by (simp add: lua_rados_newbuffer_def Let_def)

lemma aio_stat_error:
  "lua_ioctx_t.state ioctx = IOCTX_OPEN \<and> luaL_optstring E 2 b2 = Inr loc
     \<and> luaL_checkstring E 3 b3 = Inr oid
     \<and> (if cret \<noteq> 0 then cret else f ((io ioctx)\<lparr>locator_key := loc\<rparr>) oid) = ret
     \<and> ret < 0 \<longrightarrow>
     fst (lua_rados_ioctx_aio_stat E n ioctx b2 b3 raw cret tok f) =
       Return [LNil, LString (strerror E (- ret)), LNumber ret]"
  by (auto simp add: aio_defs)

lemma aio_read_error:
  "lua_ioctx_t.state ioctx = IOCTX_OPEN \<and> luaL_optstring E 2 b2 = Inr loc
     \<and> luaL_checkstring E 3 b3 = Inr oid \<and> luaL_checkinteger E 4 b4 = Inr len
     \<and> luaL_checkinteger E 5 b5 = Inr offset \<and> mem = Some b
     \<and> (if cret \<noteq> 0 then cret
         else g ((io ioctx)\<lparr>locator_key := loc\<rparr>) oid (word_of_int len) (word_of_int offset)) = ret
     \<and> ret < 0 \<longrightarrow>
     fst (lua_rados_ioctx_aio_read E n ioctx b2 b3 b4 b5 raw mem cret tok g) =
       Return [LNil, LString (strerror E (- ret)), LNumber ret]"
  by (auto simp add: aio_defs)

lemma aio_read_no_buffer:
  "lua_ioctx_t.state ioctx = IOCTX_OPEN \<and> luaL_optstring E 2 b2 = Inr loc
     \<and> luaL_checkstring E 3 b3 = Inr oid \<and> luaL_checkinteger E 4 b4 = Inr len
     \<and> luaL_checkinteger E 5 b5 = Inr offset \<and> mem = None \<longrightarrow>
     fst (lua_rados_ioctx_aio_read E n ioctx b2 b3 b4 b5 raw mem cret tok g) =
       Return [LNil, LString (strerror E (ENOMEM E)), LNumber (- ENOMEM E)]"
  by (auto simp add: aio_defs)

lemma get_return_value_error:
  "ret < 0 \<longrightarrow>
     lua_rados_completion_get_return_value E c ret =
       Return [LNil, LString (strerror E (- ret)), LNumber ret]"
  by (simp add: lua_rados_completion_get_return_value_def lua_rados_pusherror_def)

text \<open>
  Claim C8. Every call that passes its argument and state checks and gets a negative
  status from the backend returns three values: nil, the \<open>strerror\<close> message of the
  negated status, and the status itself; it does not raise. This covers \<open>create\<close>,
  \<open>conf_read_file\<close>, \<open>connect\<close>, \<open>open_ioctx\<close>, \<open>register\<close>, \<open>stat\<close>, \<open>read\<close>,
  \<open>aio_stat\<close> and \<open>aio_read\<close> (the creation of the token and the submission) and
  \<open>get_return_value\<close>. A \<open>read\<close> whose scratch buffer could not be allocated (\<open>malloc\<close>
  failed, or the length is negative as a C \<open>int\<close>) and an \<open>aio_read\<close> whose
  \<open>malloc\<close> returned \<open>NULL\<close> return the same three values with the status \<open>-ENOMEM\<close>.
\<close>

theorem backend_errors_are_nil_error_triples:
  "(luaL_optstring E 1 a1 = Inr user \<and> ret < 0 \<longrightarrow>
     fst (lua_rados_create E a1 ret cl) =
       Return [LNil, LString (strerror E (- ret)), LNumber ret])
   \<and> (lua_rados_t.state r \<noteq> CLUSTER_SHUTDOWN \<and> luaL_optstring E 2 a2 = Inr path \<and> ret < 0 \<longrightarrow>
     fst (lua_rados_conf_read_file E r a2 ret) =
       Return [LNil, LString (strerror E (- ret)), LNumber ret])
   \<and> (lua_rados_t.state r = CLUSTER_CONFIGURING \<and> ret < 0 \<longrightarrow>
     fst (lua_rados_connect E r ret) =
       Return [LNil, LString (strerror E (- ret)), LNumber ret])
   \<and> (lua_rados_t.state r = CLUSTER_CONNECTED \<and> luaL_checkstring E 2 a2 = Inr pool \<and> ret < 0 \<longrightarrow>
     fst (lua_rados_open_ioctx E r a2 ret nio reg) =
       Return [LNil, LString (strerror E (- ret)), LNumber ret])
   \<and> (lua_rados_t.state r = CLUSTER_CONNECTED \<and> luaL_checkstring E 2 a2 = Inr service
     \<and> luaL_checkstring E 3 a3 = Inr daemon \<and> ret < 0 \<longrightarrow>
     fst (lua_rados_service_register E r a2 a3 ret) =
       Return [LNil, LString (strerror E (- ret)), LNumber ret])
   \<and> (lua_ioctx_t.state ioctx = IOCTX_OPEN \<and> luaL_optstring E 2 b2 = Inr loc
     \<and> luaL_checkstring E 3 b3 = Inr oid
     \<and> fst (rados_stat ((io ioctx)\<lparr>locator_key := loc\<rparr>) oid) = ret \<and> ret < 0 \<longrightarrow>
     fst (lua_rados_ioctx_stat E ioctx b2 b3 rados_stat) =
       Return [LNil, LString (strerror E (- ret)), LNumber ret])
   \<and> (lua_ioctx_t.state ioctx = IOCTX_OPEN \<and> luaL_optstring E 2 b2 = Inr loc
     \<and> luaL_checkstring E 3 b3 = Inr oid \<and> luaL_checkinteger E 4 b4 = Inr len
     \<and> luaL_checkinteger E 5 b5 = Inr offset
     \<and> fst (lua_rados_newbuffer m (ucast (word_of_int len :: 64 word))) = Some b
     \<and> fst (rados_read ((io ioctx)\<lparr>locator_key := loc\<rparr>) oid b
              (word_of_int len) (word_of_int offset)) = ret
     \<and> ret < 0 \<longrightarrow>
     fst (lua_rados_ioctx_read E ioctx b2 b3 b4 b5 m rados_read) =
       Return [LNil, LString (strerror E (- ret)), LNumber ret])
   \<and> (lua_ioctx_t.state ioctx = IOCTX_OPEN \<and> luaL_optstring E 2 b2 = Inr loc
     \<and> luaL_checkstring E 3 b3 = Inr oid \<and> luaL_checkinteger E 4 b4 = Inr len
     \<and> luaL_checkinteger E 5 b5 = Inr offset
     \<and> fst (lua_rados_newbuffer m (ucast (word_of_int len :: 64 word))) = None \<longrightarrow>
     fst (lua_rados_ioctx_read E ioctx b2 b3 b4 b5 m rados_read) =
       Return [LNil, LString (strerror E (ENOMEM E)), LNumber (- ENOMEM E)])
   \<and> (fst (lua_rados_newbuffer m sz) = None) = (sint sz < 0 \<or> \<not> m)
   \<and> (lua_ioctx_t.state ioctx = IOCTX_OPEN \<and> luaL_optstring E 2 b2 = Inr loc
     \<and> luaL_checkstring E 3 b3 = Inr oid
     \<and> (if cret \<noteq> 0 then cret else f ((io ioctx)\<lparr>locator_key := loc\<rparr>) oid) = ret
     \<and> ret < 0 \<longrightarrow>
     fst (lua_rados_ioctx_aio_stat E n ioctx b2 b3 raw cret tok f) =
       Return [LNil, LString (strerror E (- ret)), LNumber ret])
   \<and> (lua_ioctx_t.state ioctx = IOCTX_OPEN \<and> luaL_optstring E 2 b2 = Inr loc
     \<and> luaL_checkstring E 3 b3 = Inr oid \<and> luaL_checkinteger E 4 b4 = Inr len
     \<and> luaL_checkinteger E 5 b5 = Inr offset \<and> mem = Some b
     \<and> (if cret \<noteq> 0 then cret
         else g ((io ioctx)\<lparr>locator_key := loc\<rparr>) oid (word_of_int len) (word_of_int offset)) = ret
     \<and> ret < 0 \<longrightarrow>
     fst (lua_rados_ioctx_aio_read E n ioctx b2 b3 b4 b5 raw mem cret tok g) =
       Return [LNil, LString (strerror E (- ret)), LNumber ret])
   \<and> (lua_ioctx_t.state ioctx = IOCTX_OPEN \<and> luaL_optstring E 2 b2 = Inr loc
     \<and> luaL_checkstring E 3 b3 = Inr oid \<and> luaL_checkinteger E 4 b4 = Inr len
     \<and> luaL_checkinteger E 5 b5 = Inr offset \<and> mem = None \<longrightarrow>
     fst (lua_rados_ioctx_aio_read E n ioctx b2 b3 b4 b5 raw mem cret tok g) =
       Return [LNil, LString (strerror E (ENOMEM E)), LNumber (- ENOMEM E)])
   \<and> (ret < 0 \<longrightarrow>
     lua_rados_completion_get_return_value E c ret =
       Return [LNil, LString (strerror E (- ret)), LNumber ret])"
  by (intro conjI create_error conf_read_file_error connect_error open_ioctx_error
        service_register_error stat_error read_error read_no_buffer newbuffer_fails_iff
        aio_stat_error aio_read_error aio_read_no_buffer get_return_value_error)

theorem backend_errors_are_nil_error_triples_witness:
  "fst (lua_rados_create linux_host LNil (- 2) None) =
     Return [LNil, LString ''No such file or directory'', LNumber (- 2)]
   \<and> fst (lua_rados_conf_read_file linux_host \<lparr>cluster = Some 7, state = CLUSTER_CONFIGURING\<rparr> LNil (- 2)) =
     Return [LNil, LString ''No such file or directory'', LNumber (- 2)]
   \<and> fst (lua_rados_connect linux_host \<lparr>cluster = Some 7, state = CLUSTER_CONFIGURING\<rparr> (- 2)) =
     Return [LNil, LString ''No such file or directory'', LNumber (- 2)]
   \<and> fst (lua_rados_ioctx_stat linux_host open_ioctx_1 LNil (LString ''obj'') keyed_stat) =
     Return [LNil, LString ''No such file or directory'', LNumber (- 2)]
   \<and> fst (lua_rados_ioctx_read linux_host open_ioctx_1 LNil (LString ''obj'') (LNumber 4) (LNumber 0)
          True keyed_read) =
     Return [LNil, LString ''No such file or directory'', LNumber (- 2)]
   \<and> fst (lua_rados_ioctx_read linux_host open_ioctx_1 LNil (LString ''obj'') (LNumber 4) (LNumber 0)
          False keyed_read) =
     Return [LNil, LString ''Cannot allocate memory'', LNumber (- 12)]
   \<and> fst (lua_rados_ioctx_aio_stat linux_host 0 open_ioctx_1 LNil (LString ''obj'') raw_completion
          0 5 enoent_aio_stat) =
     Return [LNil, LString ''No such file or directory'', LNumber (- 2)]
   \<and> fst (lua_rados_ioctx_aio_read linux_host 0 open_ioctx_1 LNil (LString ''obj'') (LNumber 4)
          (LNumber 0) raw_completion None 0 5 ok_aio_read) =
     Return [LNil, LString ''Cannot allocate memory'', LNumber (- 12)]
   \<and> lua_rados_completion_get_return_value linux_host short_read_completion (- 2) =
     Return [LNil, LString ''No such file or directory'', LNumber (- 2)]
   \<and> fst (lua_rados_open_ioctx linux_host \<lparr>cluster = Some 7, state = CLUSTER_CONNECTED\<rparr>
          (LString ''rbd'') (- 2) \<lparr>ioctx_handle = 3, locator_key = None\<rparr> LTable) =
     Return [LNil, LString ''No such file or directory'', LNumber (- 2)]
   \<and> fst (lua_rados_service_register linux_host \<lparr>cluster = Some 7, state = CLUSTER_CONNECTED\<rparr>
          (LString ''rbd'') (LString ''dmn'') (- 2)) =
     Return [LNil, LString ''No such file or directory'', LNumber (- 2)]
   \<and> fst (lua_rados_ioctx_aio_read linux_host 0 open_ioctx_1 LNil (LString ''obj'') (LNumber 4)
          (LNumber 0) raw_completion (Some ''zzzz'') 0 5 enoent_aio_read) =
     Return [LNil, LString ''No such file or directory'', LNumber (- 2)]"
  using backend_errors_are_nil_error_triples
          [where E = linux_host and ?a1.0 = LNil and user = None and ret = "- 2" and cl = None
             and r = "\<lparr>cluster = Some 7, state = CLUSTER_CONFIGURING\<rparr>" and ?a2.0 = LNil
             and path = None and pool = "''rbd''" and nio = "\<lparr>ioctx_handle = 3, locator_key = None\<rparr>"
             and reg = LTable and service = "''svc''" and ?a3.0 = LNil and daemon = "''dmn''"
             and ioctx = open_ioctx_1 and ?b2.0 = LNil and loc = None and ?b3.0 = "LString ''obj''"
             and oid = "''obj''" and rados_stat = keyed_stat and ?b4.0 = "LNumber 4" and len = 4
             and ?b5.0 = "LNumber 0" and offset = 0 and m = True
             and b = "[CHR 0x00, CHR 0x00, CHR 0x00, CHR 0x00]"
             and rados_read = keyed_read and sz = 4 and cret = 0 and f = enoent_aio_stat and n = 0
             and raw = raw_completion and tok = 5 and mem = "Some ''zzzz''" and g = ok_aio_read
             and c = short_read_completion]
        backend_errors_are_nil_error_triples
          [where E = linux_host and ?a1.0 = LNil and user = None and ret = "- 2" and cl = None
             and r = "\<lparr>cluster = Some 7, state = CLUSTER_CONFIGURING\<rparr>" and ?a2.0 = LNil
             and path = None and pool = "''rbd''" and nio = "\<lparr>ioctx_handle = 3, locator_key = None\<rparr>"
             and reg = LTable and service = "''svc''" and ?a3.0 = LNil and daemon = "''dmn''"
             and ioctx = open_ioctx_1 and ?b2.0 = LNil and loc = None and ?b3.0 = "LString ''obj''"
             and oid = "''obj''" and rados_stat = keyed_stat and ?b4.0 = "LNumber 4" and len = 4
             and ?b5.0 = "LNumber 0" and offset = 0 and m = False
             and b = "[]"
             and rados_read = keyed_read and sz = 4 and cret = 0 and f = enoent_aio_stat and n = 0
             and raw = raw_completion and tok = 5 and mem = None and g = ok_aio_read
             and c = short_read_completion]
        backend_errors_are_nil_error_triples
          [where E = linux_host and ?a1.0 = LNil and user = None and ret = "- 2" and cl = None
             and r = "\<lparr>cluster = Some 7, state = CLUSTER_CONNECTED\<rparr>"
             and ?a2.0 = "LString ''rbd''" and path = "Some ''rbd''" and pool = "''rbd''"
             and nio = "\<lparr>ioctx_handle = 3, locator_key = None\<rparr>"
             and reg = LTable and service = "''rbd''" and ?a3.0 = "LString ''dmn''"
             and daemon = "''dmn''"
             and ioctx = open_ioctx_1 and ?b2.0 = LNil and loc = None and ?b3.0 = "LString ''obj''"
             and oid = "''obj''" and rados_stat = keyed_stat and ?b4.0 = "LNumber 4" and len = 4
             and ?b5.0 = "LNumber 0" and offset = 0 and m = True
             and b = "[CHR 0x00, CHR 0x00, CHR 0x00, CHR 0x00]"
             and rados_read = keyed_read and sz = 4 and cret = 0 and f = enoent_aio_stat and n = 0
             and raw = raw_completion and tok = 5 and mem = "Some ''zzzz''" and g = enoent_aio_read
             and c = short_read_completion]
  by (simp add: fixture_defs keyed_stat_def keyed_read_def enoent_aio_stat_def ok_aio_read_def
        enoent_aio_read_def short_read_completion_def arg_defs ioctx_defs aio_defs
        lua_rados_newbuffer_def lua_rados_pusherror_def)

section \<open>The counter of open completions\<close>


















end
